theory Spec2Isabelle
  imports Complex_Main "HOL-Library.AList"
begin

section \<open>The Soft Actor-Critic trainer of rlkit/torch/sac/sac.py\<close>

text \<open>
  The theory embeds \<^verbatim>\<open>SACTrainer\<close>: its constructor, \<^verbatim>\<open>train_from_torch\<close>,
  \<^verbatim>\<open>get_diagnostics\<close>, \<^verbatim>\<open>end_epoch\<close> and \<^verbatim>\<open>get_snapshot\<close>.

  Conventions of the embedding.
  \<^item> Tensor entries are real numbers: the arithmetic is exact, there is no rounding,
    overflow or not-a-number value inside a tensor. The only not-a-number of the model
    is the literal \<^verbatim>\<open>np.nan\<close> of line 195, a constructor of \<open>statval\<close>.
  \<^item> A batch tensor with one scalar per row is a \<open>real list\<close>; the parameters of one
    network are one flat \<open>real list\<close>.
  \<^item> The networks, the differentiation engine, gradient clipping, the optimizer class
    and \<^verbatim>\<open>create_stats_ordered_dict\<close> are not defined in the file: they are the
    fields of a record of capabilities that every operation takes as its first argument.
  \<^item> A parameter carries its value and its gradient accumulator (\<^verbatim>\<open>.data\<close> and
    \<^verbatim>\<open>.grad\<close>); \<^verbatim>\<open>zero_grad\<close> empties the accumulator, \<^verbatim>\<open>backward\<close> adds to the
    accumulator of every parameter the loss depends on through a path that is not cut by
    \<^verbatim>\<open>detach\<close>.
  \<^item> An attribute that may be missing from the object is an \<open>option\<close> field, and reading
    it when it is missing is the error \<open>AttributeError\<close>.
  \<^item> The random draws of the two policy evaluations are explicit arguments.
\<close>

subsection \<open>Tensors, parameters, statistics\<close>

definition mean :: "real list \<Rightarrow> real" where
  "mean xs = sum_list xs / real (length xs)"

text \<open>\<^verbatim>\<open>nn.MSELoss()\<close>, the criterion of line 60, on two tensors of the same shape.\<close>

definition qf_criterion :: "real list \<Rightarrow> real list \<Rightarrow> real" where
  "qf_criterion pred target = mean (map2 (\<lambda>p t. (p - t)\<^sup>2) pred target)"

record 'v param =
  data :: 'v
  grad :: "'v option"

definition zero_grad :: "'v param \<Rightarrow> 'v param" where
  "zero_grad p = p\<lparr>grad := None\<rparr>"

fun vadd :: "real list \<Rightarrow> real list \<Rightarrow> real list" where
  "vadd (x # xs) (y # ys) = (x + y) # vadd xs ys"
| "vadd [] ys = ys"
| "vadd xs [] = xs"

text \<open>What \<^verbatim>\<open>backward\<close> does to one parameter: the gradient is added to the accumulator.\<close>

definition accumulate :: "real list param \<Rightarrow> real list \<Rightarrow> real list param" where
  "accumulate p g = p\<lparr>grad := Some (case grad p of None \<Rightarrow> g | Some a \<Rightarrow> vadd a g)\<rparr>"

definition accumulate1 :: "real param \<Rightarrow> real \<Rightarrow> real param" where
  "accumulate1 p g = p\<lparr>grad := Some (case grad p of None \<Rightarrow> g | Some a \<Rightarrow> a + g)\<rparr>"

datatype statval = Num real | NaN

type_synonym stats = "(string \<times> statval) list"

text \<open>
  An \<^verbatim>\<open>OrderedDict\<close> is an association list in insertion order. \<^verbatim>\<open>d[k] = v\<close> is
  \<open>AList.update k v d\<close>: the value is replaced in place when the key is present, the pair
  is appended otherwise. \<^verbatim>\<open>d.update(e)\<close> assigns the pairs of \<open>e\<close> in their order.
\<close>

definition dict_update :: "stats \<Rightarrow> stats \<Rightarrow> stats" where
  "dict_update d e = fold (\<lambda>(k, v) acc. AList.update k v acc) e d"

subsection \<open>Collaborators\<close>

datatype net = Policy | QF1 | QF2 | TargetQF1 | TargetQF2 | LogAlpha

datatype inp = AtObs | AtObsNewActions | AtObsActions | AtNextObs | AtNextObsNewActions

datatype loss = AlphaLoss | PolicyLoss | QF1Loss | QF2Loss

text \<open>One invocation of a collaborator, as a mock of it would record it.\<close>

datatype call =
    Forward net inp
  | ZeroGrad net
  | Backward loss
  | ClipGradNorm net
  | Step net
  | Criterion net
  | SoftUpdate net net

record ('o, 'a, 'n, 'os) capabilities =
  policy_net :: "real list \<Rightarrow> 'o \<Rightarrow> 'n \<Rightarrow> 'a \<times> real list \<times> real list \<times> real"
  qf1_net :: "real list \<Rightarrow> 'o \<Rightarrow> 'a \<Rightarrow> real"
  qf2_net :: "real list \<Rightarrow> 'o \<Rightarrow> 'a \<Rightarrow> real"
  target_qf1_net :: "real list \<Rightarrow> 'o \<Rightarrow> 'a \<Rightarrow> real"
  target_qf2_net :: "real list \<Rightarrow> 'o \<Rightarrow> 'a \<Rightarrow> real"
  autograd :: "(real list \<Rightarrow> real) \<Rightarrow> real list \<Rightarrow> real list"
  autograd1 :: "(real \<Rightarrow> real) \<Rightarrow> real \<Rightarrow> real"
  clip_grad_norm :: "real list \<Rightarrow> real \<Rightarrow> real \<times> real list"
  optimizer_class :: "real list \<Rightarrow> real \<Rightarrow> 'os"
  optimizer_class1 :: "real \<Rightarrow> real \<Rightarrow> 'os"
  optimizer_step :: "'os \<Rightarrow> real list \<Rightarrow> real list \<Rightarrow> 'os \<times> real list"
  optimizer_step1 :: "'os \<Rightarrow> real \<Rightarrow> real \<Rightarrow> 'os \<times> real"
  create_stats_ordered_dict :: "string \<Rightarrow> real list \<Rightarrow> stats"

text \<open>
  \<open>policy_net \<theta> o \<epsilon>\<close> is the policy with parameters \<open>\<theta>\<close> on one observation and one
  random draw: the action, the mean, the log standard deviation and the log-probability.
  \<open>autograd f x\<close> is the gradient at \<open>x\<close> of the scalar loss \<open>f\<close>, \<open>clip_grad_norm g m\<close>
  the total norm of \<open>g\<close> and the clipped gradient, \<open>optimizer_class \<theta> lr\<close> a new
  optimizer and \<open>optimizer_step\<close> one step of it on a value and its gradient. The
  functions with suffix \<open>1\<close> are the same operations on the one-element tensor
  \<^verbatim>\<open>log_alpha\<close>, which the model holds as a real number.
\<close>

subsection \<open>The trainer and the batch\<close>

datatype error = AttributeError string | ZeroDivisionError

text \<open>
  The attributes of the object. \<open>calls\<close> is not one of them: it is the record of the
  invocations of the collaborators since construction, in the order they were made.
  \<^verbatim>\<open>env\<close> is read by the constructor only, \<^verbatim>\<open>qf_criterion\<close> is the constant above.
\<close>

record 'os trainer =
  policy :: "real list param"
  qf1 :: "real list param"
  qf2 :: "real list param"
  target_qf1 :: "real list param"
  target_qf2 :: "real list param"
  soft_target_tau :: real
  target_update_period :: int
  alpha :: real
  use_automatic_entropy_tuning :: bool
  target_entropy :: "real option"
  log_alpha :: "real param option"
  alpha_optimizer :: "'os option"
  render_eval_paths :: bool
  policy_optimizer :: "'os option"
  qf1_optimizer :: "'os option"
  qf2_optimizer :: "'os option"
  discount :: real
  reward_scale :: real
  eval_statistics :: stats
  n_train_steps_total :: int
  need_to_update_eval_statistics :: bool
  calls :: "call list"

record ('o, 'a) batch =
  rewards :: "real list"
  terminals :: "real list"
  observations :: "'o list"
  actions :: "'a list"
  next_observations :: "'o list"

definition called :: "call list \<Rightarrow> 'os trainer \<Rightarrow> 'os trainer" where
  "called cs s = s\<lparr>calls := calls s @ cs\<rparr>"

subsection \<open>The constructor (lines 14 to 75)\<close>

record ('os) sac_args =
  arg_action_space_shape :: "int list"
  arg_policy :: "real list param"
  arg_qf1 :: "real list param"
  arg_qf2 :: "real list param"
  arg_target_qf1 :: "real list param"
  arg_target_qf2 :: "real list param"
  arg_discount :: real
  arg_reward_scale :: real
  arg_policy_lr :: real
  arg_qf_lr :: real
  arg_soft_target_tau :: real
  arg_target_update_period :: int
  arg_render_eval_paths :: bool
  arg_alpha :: real
  arg_use_automatic_entropy_tuning :: bool
  arg_target_entropy :: "real option"
  arg_policy_optimizer :: "'os option"
  arg_qf1_optimizer :: "'os option"
  arg_qf2_optimizer :: "'os option"

text \<open>Python's truth value of an argument that is \<^verbatim>\<open>None\<close> or a number.\<close>

definition truthy :: "real option \<Rightarrow> bool" where
  "truthy v = (case v of None \<Rightarrow> False | Some x \<Rightarrow> x \<noteq> 0)"

text \<open>\<^verbatim>\<open>-np.prod(self.env.action_space.shape).item()\<close>, line 54.\<close>

definition heuristic_target_entropy :: "int list \<Rightarrow> real" where
  "heuristic_target_entropy shape = - real_of_int (prod_list shape)"

definition sac_init ::
  "('o, 'a, 'n, 'os) capabilities \<Rightarrow> 'os sac_args \<Rightarrow> 'os trainer" where
  "sac_init C a =
    (let auto = arg_use_automatic_entropy_tuning a in
     \<lparr> policy = arg_policy a,
       qf1 = arg_qf1 a,
       qf2 = arg_qf2 a,
       target_qf1 = arg_target_qf1 a,
       target_qf2 = arg_target_qf2 a,
       soft_target_tau = arg_soft_target_tau a,
       target_update_period = arg_target_update_period a,
       alpha = arg_alpha a,
       use_automatic_entropy_tuning = auto,
       target_entropy =
         (if auto then
            (if truthy (arg_target_entropy a) then arg_target_entropy a
             else Some (heuristic_target_entropy (arg_action_space_shape a)))
          else None),
       log_alpha = (if auto then Some \<lparr>data = 0, grad = None\<rparr> else None),
       alpha_optimizer =
         (if auto then Some (optimizer_class1 C 0 (arg_policy_lr a)) else None),
       render_eval_paths = arg_render_eval_paths a,
       policy_optimizer =
         (if arg_policy_optimizer a = None
          then Some (optimizer_class C (data (arg_policy a)) (arg_policy_lr a)) else None),
       qf1_optimizer =
         (if arg_qf1_optimizer a = None
          then Some (optimizer_class C (data (arg_qf1 a)) (arg_qf_lr a)) else None),
       qf2_optimizer =
         (if arg_qf2_optimizer a = None
          then Some (optimizer_class C (data (arg_qf2 a)) (arg_qf_lr a)) else None),
       discount = arg_discount a,
       reward_scale = arg_reward_scale a,
       eval_statistics = [],
       n_train_steps_total = 0,
       need_to_update_eval_statistics = True,
       calls = [] \<rparr>)"

subsection \<open>The values computed by one training call\<close>

text \<open>
  Each local variable of \<^verbatim>\<open>train_from_torch\<close> that a loss is built from is a function of
  the parameter values it was computed with, so that a loss can be differentiated with
  respect to them and a statement can say which values a quantity was computed from.
\<close>

text \<open>\<^verbatim>\<open>self.policy(obs, reparameterize=True, return_log_prob=True)\<close>, lines 86 and 111.\<close>

definition policy_apply ::
  "('o, 'a, 'n, 'os) capabilities \<Rightarrow> real list \<Rightarrow> 'o list \<Rightarrow> 'n list
   \<Rightarrow> ('a \<times> real list \<times> real list \<times> real) list" where
  "policy_apply C \<theta> obs eps = map2 (policy_net C \<theta>) obs eps"

definition sample_actions :: "('a \<times> real list \<times> real list \<times> real) list \<Rightarrow> 'a list" where
  "sample_actions out = map fst out"

definition sample_mean :: "('a \<times> real list \<times> real list \<times> real) list \<Rightarrow> real list list" where
  "sample_mean out = map (\<lambda>(a, m, s, l). m) out"

definition sample_log_std :: "('a \<times> real list \<times> real list \<times> real) list \<Rightarrow> real list list" where
  "sample_log_std out = map (\<lambda>(a, m, s, l). s) out"

definition sample_log_pi :: "('a \<times> real list \<times> real list \<times> real) list \<Rightarrow> real list" where
  "sample_log_pi out = map (\<lambda>(a, m, s, l). l) out"

text \<open>A critic on a batch of observations and actions.\<close>

definition q_apply ::
  "(real list \<Rightarrow> 'o \<Rightarrow> 'a \<Rightarrow> real) \<Rightarrow> real list \<Rightarrow> 'o list \<Rightarrow> 'a list \<Rightarrow> real list" where
  "q_apply f \<phi> obs acts = map2 (f \<phi>) obs acts"

text \<open>Lines 90 to 92; \<open>log_pi\<close> and \<open>te\<close> are constants of the loss (\<^verbatim>\<open>detach\<close>).\<close>

definition alpha_loss_fn :: "real list \<Rightarrow> real \<Rightarrow> real \<Rightarrow> real" where
  "alpha_loss_fn log_pi te la = - mean (map (\<lambda>lp. la * (lp + te)) log_pi)"

text \<open>Lines 101 to 103.\<close>

definition q_new_actions_fn ::
  "('o, 'a, 'n, 'os) capabilities \<Rightarrow> real list \<Rightarrow> real list \<Rightarrow> real list
   \<Rightarrow> 'o list \<Rightarrow> 'n list \<Rightarrow> real list" where
  "q_new_actions_fn C \<theta> \<phi>1 \<phi>2 obs eps =
    (let new_obs_actions = sample_actions (policy_apply C \<theta> obs eps)
     in map2 min (q_apply (qf1_net C) \<phi>1 obs new_obs_actions)
                 (q_apply (qf2_net C) \<phi>2 obs new_obs_actions))"

text \<open>Line 104.\<close>

definition policy_loss_fn ::
  "('o, 'a, 'n, 'os) capabilities \<Rightarrow> 'o list \<Rightarrow> 'n list
   \<Rightarrow> real \<Rightarrow> real list \<Rightarrow> real list \<Rightarrow> real list \<Rightarrow> real" where
  "policy_loss_fn C obs eps a \<theta> \<phi>1 \<phi>2 =
    mean (map2 (\<lambda>lp q. a * lp - q)
            (sample_log_pi (policy_apply C \<theta> obs eps))
            (q_new_actions_fn C \<theta> \<phi>1 \<phi>2 obs eps))"

text \<open>Lines 111 to 120.\<close>

definition target_q_values_fn ::
  "('o, 'a, 'n, 'os) capabilities \<Rightarrow> real \<Rightarrow> real list \<Rightarrow> real list \<Rightarrow> real list
   \<Rightarrow> 'o list \<Rightarrow> 'n list \<Rightarrow> real list" where
  "target_q_values_fn C a \<theta> \<tau>1 \<tau>2 next_obs eps =
    (let out = policy_apply C \<theta> next_obs eps;
         new_next_actions = sample_actions out;
         new_log_pi = sample_log_pi out
     in map2 (\<lambda>q lp. q - a * lp)
          (map2 min (q_apply (target_qf1_net C) \<tau>1 next_obs new_next_actions)
                    (q_apply (target_qf2_net C) \<tau>2 next_obs new_next_actions))
          new_log_pi)"

text \<open>Lines 122 to 125.\<close>

definition q_target_fn ::
  "real \<Rightarrow> real \<Rightarrow> real list \<Rightarrow> real list \<Rightarrow> real list \<Rightarrow> real list" where
  "q_target_fn rs \<gamma> rs_batch ts_batch tq =
    map2 (\<lambda>r (d, t). rs * r + (1 - d) * \<gamma> * t) rs_batch (zip ts_batch tq)"

subsection \<open>Gradient steps\<close>

text \<open>
  \<^verbatim>\<open>nn.utils.clip_grad_norm_(params, 100)\<close> and \<^verbatim>\<open>optimizer.step()\<close> on one
  parameter; both leave a parameter without a gradient as it is.
\<close>

definition clip :: "('o, 'a, 'n, 'os) capabilities \<Rightarrow> real list param \<Rightarrow> real \<times> real list param" where
  "clip C p =
    (case grad p of None \<Rightarrow> (0, p)
     | Some g \<Rightarrow> (case clip_grad_norm C g 100 of (n, g') \<Rightarrow> (n, p\<lparr>grad := Some g'\<rparr>)))"

definition step :: "('o, 'a, 'n, 'os) capabilities \<Rightarrow> 'os \<Rightarrow> real list param \<Rightarrow> 'os \<times> real list param" where
  "step C opt p =
    (case grad p of None \<Rightarrow> (opt, p)
     | Some g \<Rightarrow> (case optimizer_step C opt (data p) g of (opt', v) \<Rightarrow> (opt', p\<lparr>data := v\<rparr>)))"

definition step1 :: "('o, 'a, 'n, 'os) capabilities \<Rightarrow> 'os \<Rightarrow> real param \<Rightarrow> 'os \<times> real param" where
  "step1 C opt p =
    (case grad p of None \<Rightarrow> (opt, p)
     | Some g \<Rightarrow> (case optimizer_step1 C opt (data p) g of (opt', v) \<Rightarrow> (opt', p\<lparr>data := v\<rparr>)))"

text \<open>Lines 89 to 99: the loss value, the coefficient and the new state.\<close>

definition entropy_update ::
  "('o, 'a, 'n, 'os) capabilities \<Rightarrow> 'os trainer \<Rightarrow> real list
   \<Rightarrow> error + (real \<times> real \<times> 'os trainer)" where
  "entropy_update C s log_pi =
    (if use_automatic_entropy_tuning s then
       (case log_alpha s of
          None \<Rightarrow> Inl (AttributeError ''log_alpha'')
        | Some la \<Rightarrow>
       (case target_entropy s of
          None \<Rightarrow> Inl (AttributeError ''target_entropy'')
        | Some te \<Rightarrow>
       (case alpha_optimizer s of
          None \<Rightarrow> Inl (AttributeError ''alpha_optimizer'')
        | Some opt \<Rightarrow>
          (let alpha_loss = alpha_loss_fn log_pi te (data la);
               la = zero_grad la;
               la = accumulate1 la (autograd1 C (alpha_loss_fn log_pi te) (data la))
           in case step1 C opt la of (opt, la) \<Rightarrow>
                Inr (alpha_loss, exp (data la),
                     called [ZeroGrad LogAlpha, Backward AlphaLoss, Step LogAlpha]
                       (s\<lparr>log_alpha := Some la, alpha_optimizer := Some opt\<rparr>))))))
     else Inr (0, alpha s, s))"

text \<open>
  Lines 131 to 134. \<open>L a \<theta> \<phi>1 \<phi>2\<close> is the policy loss as a function of the coefficient
  and of the parameters of the policy and of the two critics. The backward pass reaches
  every parameter the loss depends on: the policy, both critics (through
  \<^verbatim>\<open>q_new_actions\<close>) and, with automatic tuning, \<^verbatim>\<open>log_alpha\<close> (through
  \<^verbatim>\<open>alpha = self.log_alpha.exp()\<close>, line 96).
\<close>

definition policy_update ::
  "('o, 'a, 'n, 'os) capabilities \<Rightarrow> (real \<Rightarrow> real list \<Rightarrow> real list \<Rightarrow> real list \<Rightarrow> real)
   \<Rightarrow> real \<Rightarrow> 'os trainer \<Rightarrow> error + (real \<times> 'os trainer)" where
  "policy_update C L a s =
    (case policy_optimizer s of
       None \<Rightarrow> Inl (AttributeError ''policy_optimizer'')
     | Some opt \<Rightarrow>
       (let \<theta> = data (policy s); \<phi>1 = data (qf1 s); \<phi>2 = data (qf2 s);
            p = zero_grad (policy s);
            p = accumulate p (autograd C (\<lambda>x. L a x \<phi>1 \<phi>2) \<theta>);
            q1 = accumulate (qf1 s) (autograd C (\<lambda>x. L a \<theta> x \<phi>2) \<phi>1);
            q2 = accumulate (qf2 s) (autograd C (\<lambda>x. L a \<theta> \<phi>1 x) \<phi>2);
            la = (if use_automatic_entropy_tuning s
                  then map_option
                         (\<lambda>l. accumulate1 l (autograd1 C (\<lambda>x. L (exp x) \<theta> \<phi>1 \<phi>2) (data l)))
                         (log_alpha s)
                  else log_alpha s)
        in case clip C p of (norm_policy, p) \<Rightarrow>
           case step C opt p of (opt, p) \<Rightarrow>
             Inr (norm_policy,
                  called [ZeroGrad Policy, Backward PolicyLoss, ClipGradNorm Policy, Step Policy]
                    (s\<lparr>policy := p, qf1 := q1, qf2 := q2, log_alpha := la,
                       policy_optimizer := Some opt\<rparr>))))"

text \<open>
  Lines 136 to 139 and 141 to 144. \<open>L \<phi>\<close> is the critic's loss as a function of its own
  parameters; the target is a constant of it (\<^verbatim>\<open>q_target.detach()\<close>).
\<close>

definition qf1_update ::
  "('o, 'a, 'n, 'os) capabilities \<Rightarrow> (real list \<Rightarrow> real) \<Rightarrow> 'os trainer
   \<Rightarrow> error + (real \<times> 'os trainer)" where
  "qf1_update C L s =
    (case qf1_optimizer s of
       None \<Rightarrow> Inl (AttributeError ''qf1_optimizer'')
     | Some opt \<Rightarrow>
       (let q = zero_grad (qf1 s);
            q = accumulate q (autograd C L (data q))
        in case clip C q of (norm_qf1, q) \<Rightarrow>
           case step C opt q of (opt, q) \<Rightarrow>
             Inr (norm_qf1,
                  called [ZeroGrad QF1, Backward QF1Loss, ClipGradNorm QF1, Step QF1]
                    (s\<lparr>qf1 := q, qf1_optimizer := Some opt\<rparr>))))"

definition qf2_update ::
  "('o, 'a, 'n, 'os) capabilities \<Rightarrow> (real list \<Rightarrow> real) \<Rightarrow> 'os trainer
   \<Rightarrow> error + (real \<times> 'os trainer)" where
  "qf2_update C L s =
    (case qf2_optimizer s of
       None \<Rightarrow> Inl (AttributeError ''qf2_optimizer'')
     | Some opt \<Rightarrow>
       (let q = zero_grad (qf2 s);
            q = accumulate q (autograd C L (data q))
        in case clip C q of (norm_qf2, q) \<Rightarrow>
           case step C opt q of (opt, q) \<Rightarrow>
             Inr (norm_qf2,
                  called [ZeroGrad QF2, Backward QF2Loss, ClipGradNorm QF2, Step QF2]
                    (s\<lparr>qf2 := q, qf2_optimizer := Some opt\<rparr>))))"

subsection \<open>Soft updates (lines 148 to 150)\<close>

fun ema :: "real \<Rightarrow> real list \<Rightarrow> real list \<Rightarrow> real list" where
  "ema tau (p # ps) (t # ts) = (tau * p + (1 - tau) * t) # ema tau ps ts"
| "ema tau ps [] = []"
| "ema tau [] ts = ts"

text \<open>
  Modelled from the spec: \<^verbatim>\<open>ptu.soft_update_from_to\<close> is defined in
  \<^verbatim>\<open>rlkit/torch/pytorch_util.py\<close>. The specification gives it as: for every matching
  parameter tensor, target \<open>\<leftarrow>\<close> tau \<open>\<cdot>\<close> online + (1 - tau) \<open>\<cdot>\<close> target, elementwise. An
  entry of the target without a matching entry of the online network stays as it is.
\<close>

definition soft_update_from_to :: "real list param \<Rightarrow> real list param \<Rightarrow> real \<Rightarrow> real list param" where
  "soft_update_from_to source target tau = target\<lparr>data := ema tau (data source) (data target)\<rparr>"

text \<open>Python's \<^verbatim>\<open>%\<close> on integers raises when the divisor is zero.\<close>

definition soft_updates :: "'os trainer \<Rightarrow> error + 'os trainer" where
  "soft_updates s =
    (if target_update_period s = 0 then Inl ZeroDivisionError
     else if n_train_steps_total s mod target_update_period s = 0 then
       Inr (called [SoftUpdate QF1 TargetQF1, SoftUpdate QF2 TargetQF2]
              (s\<lparr>target_qf1 := soft_update_from_to (qf1 s) (target_qf1 s) (soft_target_tau s),
                 target_qf2 := soft_update_from_to (qf2 s) (target_qf2 s) (soft_target_tau s)\<rparr>))
     else Inr s)"

subsection \<open>Statistics (lines 154 to 195)\<close>

text \<open>
  The assignments of lines 160 to 195 in their order, as the pairs they write. The
  arguments are the local variables of the call.
\<close>

definition statistics_entries ::
  "('o, 'a, 'n, 'os) capabilities \<Rightarrow> bool \<Rightarrow> real \<Rightarrow> real \<Rightarrow> real list \<Rightarrow> real list
   \<Rightarrow> real \<Rightarrow> real \<Rightarrow> real \<Rightarrow> real list \<Rightarrow> real list \<Rightarrow> real list
   \<Rightarrow> real list list \<Rightarrow> real list list \<Rightarrow> real \<Rightarrow> real \<Rightarrow> stats" where
  "statistics_entries C auto qf1_loss qf2_loss log_pi q_new_actions
      norm_qf1 norm_qf2 norm_policy q1_pred q2_pred q_target
      policy_mean policy_log_std a alpha_loss =
    (let policy_loss = mean (map2 (\<lambda>lp q. lp - q) log_pi q_new_actions) in
     [(''QF1 Loss'', Num qf1_loss),
      (''QF2 Loss'', Num qf2_loss),
      (''Policy Loss'', Num policy_loss),
      (''QF1 Grad Norm'', Num norm_qf1),
      (''QF2 Grad Norm'', Num norm_qf2),
      (''Policy Grad Norm'', Num norm_policy)]
     @ create_stats_ordered_dict C ''Q1 Predictions'' q1_pred
     @ create_stats_ordered_dict C ''Q2 Predictions'' q2_pred
     @ create_stats_ordered_dict C ''Q1 Predictions'' q1_pred
     @ create_stats_ordered_dict C ''Q2 Predictions'' q2_pred
     @ create_stats_ordered_dict C ''Q Targets'' q_target
     @ create_stats_ordered_dict C ''Log Pis'' log_pi
     @ create_stats_ordered_dict C ''Policy mu'' (concat policy_mean)
     @ create_stats_ordered_dict C ''Policy log std'' (concat policy_log_std)
     @ [(''Alpha'', Num a),
        (''Alpha Loss'', if auto then Num alpha_loss else NaN)])"

definition save_statistics :: "stats \<Rightarrow> 'os trainer \<Rightarrow> 'os trainer" where
  "save_statistics entries s =
    (if need_to_update_eval_statistics s then
       s\<lparr>need_to_update_eval_statistics := False,
         eval_statistics := dict_update (eval_statistics s) entries\<rparr>
     else s)"

subsection \<open>The training call (lines 77 to 196)\<close>

text \<open>
  Lines 78 to 150: the forward computations, the gradient steps and the soft updates.
  The result is the state after line 150 and the pairs that lines 160 to 195 write when
  the statistics are due; nothing of lines 154 to 196 reads anything else.
\<close>

definition train_steps ::
  "('o, 'a, 'n, 'os) capabilities \<Rightarrow> 'os trainer \<Rightarrow> ('o, 'a) batch \<Rightarrow> 'n list \<Rightarrow> 'n list
   \<Rightarrow> error + (stats \<times> 'os trainer)" where
  "train_steps C s0 b eps eps' =
    (let obs = observations b; next_obs = next_observations b;
         \<theta> = data (policy s0); \<phi>1 = data (qf1 s0); \<phi>2 = data (qf2 s0);
         out = policy_apply C \<theta> obs eps;
         log_pi = sample_log_pi out;
         s = called [Forward Policy AtObs] s0
     in case entropy_update C s log_pi of
          Inl e \<Rightarrow> Inl e
        | Inr (alpha_loss, a, s) \<Rightarrow>
     (let q_new_actions = q_new_actions_fn C \<theta> \<phi>1 \<phi>2 obs eps;
          q1_pred = q_apply (qf1_net C) \<phi>1 obs (actions b);
          q2_pred = q_apply (qf2_net C) \<phi>2 obs (actions b);
          target_q_values =
            target_q_values_fn C a \<theta> (data (target_qf1 s)) (data (target_qf2 s)) next_obs eps';
          q_target =
            q_target_fn (reward_scale s) (discount s) (rewards b) (terminals b) target_q_values;
          qf1_loss = qf_criterion q1_pred q_target;
          qf2_loss = qf_criterion q2_pred q_target;
          s = called [Forward QF1 AtObsNewActions, Forward QF2 AtObsNewActions,
                      Forward QF1 AtObsActions, Forward QF2 AtObsActions,
                      Forward Policy AtNextObs,
                      Forward TargetQF1 AtNextObsNewActions,
                      Forward TargetQF2 AtNextObsNewActions,
                      Criterion QF1, Criterion QF2] s
      in case policy_update C (policy_loss_fn C obs eps) a s of
           Inl e \<Rightarrow> Inl e
         | Inr (norm_policy, s) \<Rightarrow>
         (case qf1_update C (\<lambda>\<phi>. qf_criterion (q_apply (qf1_net C) \<phi> obs (actions b)) q_target) s of
            Inl e \<Rightarrow> Inl e
          | Inr (norm_qf1, s) \<Rightarrow>
         (case qf2_update C (\<lambda>\<phi>. qf_criterion (q_apply (qf2_net C) \<phi> obs (actions b)) q_target) s of
            Inl e \<Rightarrow> Inl e
          | Inr (norm_qf2, s) \<Rightarrow>
         (case soft_updates s of
            Inl e \<Rightarrow> Inl e
          | Inr s \<Rightarrow>
              Inr (statistics_entries C (use_automatic_entropy_tuning s)
                     qf1_loss qf2_loss log_pi q_new_actions
                     norm_qf1 norm_qf2 norm_policy q1_pred q2_pred q_target
                     (sample_mean out) (sample_log_std out) a alpha_loss, s))))))"

definition train_from_torch ::
  "('o, 'a, 'n, 'os) capabilities \<Rightarrow> 'os trainer \<Rightarrow> ('o, 'a) batch \<Rightarrow> 'n list \<Rightarrow> 'n list
   \<Rightarrow> error + 'os trainer" where
  "train_from_torch C s0 b eps eps' =
    (case train_steps C s0 b eps eps' of
       Inl e \<Rightarrow> Inl e
     | Inr (entries, s) \<Rightarrow>
         (let s = save_statistics entries s
          in Inr (s\<lparr>n_train_steps_total := n_train_steps_total s + 1\<rparr>)))"

subsection \<open>The other methods (lines 198 to 233)\<close>

definition get_diagnostics :: "'os trainer \<Rightarrow> stats" where
  "get_diagnostics s = eval_statistics s"

definition end_epoch :: "'os trainer \<Rightarrow> int \<Rightarrow> 'os trainer" where
  "end_epoch s epoch = s\<lparr>need_to_update_eval_statistics := True\<rparr>"

record 'os snapshot =
  snap_policy :: "real list param"
  snap_qf1 :: "real list param"
  snap_qf2 :: "real list param"
  snap_target_qf1 :: "real list param"
  snap_target_qf2 :: "real list param"
  snap_policy_optimizer :: 'os
  snap_qf1_optimizer :: 'os
  snap_qf2_optimizer :: 'os

text \<open>
  The keyword arguments of \<^verbatim>\<open>dict(...)\<close> are evaluated in their order; the networks
  of the model have no \<^verbatim>\<open>module\<close> attribute, so the loop of lines 229 to 232 changes
  nothing.
\<close>

definition get_snapshot :: "'os trainer \<Rightarrow> error + 'os snapshot" where
  "get_snapshot s =
    (case policy_optimizer s of
       None \<Rightarrow> Inl (AttributeError ''policy_optimizer'')
     | Some po \<Rightarrow>
    (case qf1_optimizer s of
       None \<Rightarrow> Inl (AttributeError ''qf1_optimizer'')
     | Some q1o \<Rightarrow>
    (case qf2_optimizer s of
       None \<Rightarrow> Inl (AttributeError ''qf2_optimizer'')
     | Some q2o \<Rightarrow>
       Inr \<lparr> snap_policy = policy s, snap_qf1 = qf1 s, snap_qf2 = qf2 s,
             snap_target_qf1 = target_qf1 s, snap_target_qf2 = target_qf2 s,
             snap_policy_optimizer = po, snap_qf1_optimizer = q1o,
             snap_qf2_optimizer = q2o \<rparr>)))"


subsection \<open>Trainers on which a training call raises nothing\<close>

text \<open>
  Every attribute that \<^verbatim>\<open>train_from_torch\<close> reads is present and the period of the
  soft updates is not zero.
\<close>

definition ready :: "'os trainer \<Rightarrow> bool" where
  "ready s \<longleftrightarrow>
     policy_optimizer s \<noteq> None \<and> qf1_optimizer s \<noteq> None \<and> qf2_optimizer s \<noteq> None \<and>
     target_update_period s \<noteq> 0 \<and>
     (use_automatic_entropy_tuning s \<longrightarrow>
        log_alpha s \<noteq> None \<and> target_entropy s \<noteq> None \<and> alpha_optimizer s \<noteq> None)"

text \<open>
  Two local variables of a training call as functions of the state before the call:
  \<^verbatim>\<open>log_pi\<close> (line 86) and \<^verbatim>\<open>q_target\<close> (lines 111 to 125) for the coefficient \<open>a\<close>.
\<close>

abbreviation log_pi_at ::
  "('o, 'a, 'n, 'os) capabilities \<Rightarrow> 'os trainer \<Rightarrow> ('o, 'a) batch \<Rightarrow> 'n list \<Rightarrow> real list" where
  "log_pi_at C s b eps \<equiv>
     sample_log_pi (policy_apply C (data (policy s)) (observations b) eps)"

abbreviation q_target_at ::
  "('o, 'a, 'n, 'os) capabilities \<Rightarrow> 'os trainer \<Rightarrow> ('o, 'a) batch \<Rightarrow> real \<Rightarrow> 'n list
   \<Rightarrow> real list" where
  "q_target_at C s b a eps' \<equiv>
     q_target_fn (reward_scale s) (discount s) (rewards b) (terminals b)
       (target_q_values_fn C a (data (policy s)) (data (target_qf1 s)) (data (target_qf2 s))
          (next_observations b) eps')"

subsection \<open>Example inputs\<close>

text \<open>
  Observations, actions and random draws are real numbers and an optimizer is its
  learning rate and the number of steps it has made. The networks are small closed
  formulas, the gradient of a loss is its forward difference with step one, the norm is
  the sum of absolute values, the optimizer is plain gradient descent, and the summary
  of a tensor has no entries when the tensor is empty and four entries otherwise.
\<close>

definition example_caps :: "(real, real, real, real \<times> nat) capabilities" where
  "example_caps =
    \<lparr> policy_net = (\<lambda>\<theta> ob e. (sum_list \<theta> + e, [sum_list \<theta>], [0], ob)),
      qf1_net = (\<lambda>\<phi> ob act. sum_list \<phi> * act),
      qf2_net = (\<lambda>\<phi> ob act. sum_list \<phi> + act),
      target_qf1_net = (\<lambda>\<phi> ob act. sum_list \<phi> * act),
      target_qf2_net = (\<lambda>\<phi> ob act. sum_list \<phi> + act),
      autograd = (\<lambda>f x. map (\<lambda>i. f (x[i := x ! i + 1]) - f x) [0..<length x]),
      autograd1 = (\<lambda>f x. f (x + 1) - f x),
      clip_grad_norm =
        (\<lambda>g m. let n = sum_list (map abs g)
               in (n, if m < n then map (\<lambda>x. x * (m / n)) g else g)),
      optimizer_class = (\<lambda>\<theta> lr. (lr, 0)),
      optimizer_class1 = (\<lambda>v lr. (lr, 0)),
      optimizer_step = (\<lambda>(lr, k) v g. ((lr, Suc k), map2 (\<lambda>x d. x - lr * d) v g)),
      optimizer_step1 = (\<lambda>(lr, k) v g. ((lr, Suc k), v - lr * g)),
      create_stats_ordered_dict =
        (\<lambda>name xs.
           if xs = [] then []
           else [(name @ '' Mean'', Num (mean xs)),
                 (name @ '' Std'', Num (sqrt (mean (map (\<lambda>x. (x - mean xs)\<^sup>2) xs)))),
                 (name @ '' Max'', Num (fold max xs (hd xs))),
                 (name @ '' Min'', Num (fold min xs (hd xs)))]) \<rparr>"

definition example_args :: "(real \<times> nat) sac_args" where
  "example_args =
    \<lparr> arg_action_space_shape = [1],
      arg_policy = \<lparr>data = [0], grad = None\<rparr>,
      arg_qf1 = \<lparr>data = [1], grad = None\<rparr>,
      arg_qf2 = \<lparr>data = [2], grad = None\<rparr>,
      arg_target_qf1 = \<lparr>data = [1], grad = None\<rparr>,
      arg_target_qf2 = \<lparr>data = [2], grad = None\<rparr>,
      arg_discount = 1 / 2,
      arg_reward_scale = 1,
      arg_policy_lr = 1,
      arg_qf_lr = 1,
      arg_soft_target_tau = 1 / 2,
      arg_target_update_period = 1,
      arg_render_eval_paths = False,
      arg_alpha = 1 / 5,
      arg_use_automatic_entropy_tuning = False,
      arg_target_entropy = None,
      arg_policy_optimizer = None,
      arg_qf1_optimizer = None,
      arg_qf2_optimizer = None \<rparr>"

definition example_trainer :: "(real \<times> nat) trainer" where
  "example_trainer = sac_init example_caps example_args"

definition example_auto_trainer :: "(real \<times> nat) trainer" where
  "example_auto_trainer =
     sac_init example_caps (example_args\<lparr>arg_use_automatic_entropy_tuning := True\<rparr>)"

definition example_batch :: "(real, real) batch" where
  "example_batch =
    \<lparr> rewards = [1], terminals = [0], observations = [1], actions = [1],
      next_observations = [2] \<rparr>"


section \<open>Lemmas\<close>

subsection \<open>Records, lists and the small functions\<close>

lemma called_fields [simp]:
  "policy (called cs s) = policy s" "qf1 (called cs s) = qf1 s" "qf2 (called cs s) = qf2 s"
  "target_qf1 (called cs s) = target_qf1 s" "target_qf2 (called cs s) = target_qf2 s"
  "soft_target_tau (called cs s) = soft_target_tau s"
  "target_update_period (called cs s) = target_update_period s"
  "alpha (called cs s) = alpha s"
  "use_automatic_entropy_tuning (called cs s) = use_automatic_entropy_tuning s"
  "target_entropy (called cs s) = target_entropy s"
  "log_alpha (called cs s) = log_alpha s"
  "alpha_optimizer (called cs s) = alpha_optimizer s"
  "policy_optimizer (called cs s) = policy_optimizer s"
  "qf1_optimizer (called cs s) = qf1_optimizer s"
  "qf2_optimizer (called cs s) = qf2_optimizer s"
  "discount (called cs s) = discount s" "reward_scale (called cs s) = reward_scale s"
  "eval_statistics (called cs s) = eval_statistics s"
  "n_train_steps_total (called cs s) = n_train_steps_total s"
  "need_to_update_eval_statistics (called cs s) = need_to_update_eval_statistics s"
  "calls (called cs s) = calls s @ cs"
  by (simp_all add: called_def)

lemma map_of_dict_update:
  "map_of (dict_update d e) = map_of d ++ map_of (rev e)"
  unfolding dict_update_def
  by (induction e arbitrary: d)
     (auto simp: update_conv' map_add_def fun_eq_iff split: option.splits)

lemma ema_length [simp]: "length (ema tau ps ts) = length ts"
  by (induction tau ps ts rule: ema.induct) simp_all

lemma ema_nth:
  "i < length ts \<Longrightarrow>
   ema tau ps ts ! i = (if i < length ps then tau * ps ! i + (1 - tau) * ts ! i else ts ! i)"
proof (induction tau ps ts arbitrary: i rule: ema.induct)
  case (1 tau p ps t ts)
  then show ?case by (cases i) simp_all
qed simp_all

lemma ema_one: "length ps = length ts \<Longrightarrow> ema 1 ps ts = ps"
  by (induction ps ts rule: list_induct2) simp_all



lemma policy_terms_explicit:
  "map2 (\<lambda>lp q. k * lp - q)
     (sample_log_pi (policy_apply C \<theta> obs eps))
     (q_new_actions_fn C \<theta> \<phi>1 \<phi>2 obs eps) =
   map2 (\<lambda>ob e. case policy_net C \<theta> ob e of
            (act, m, sd, lp) \<Rightarrow> k * lp - min (qf1_net C \<phi>1 ob act) (qf2_net C \<phi>2 ob act))
     obs eps"
  by (induction obs eps rule: list_induct2')
     (simp_all add: sample_log_pi_def policy_apply_def q_new_actions_fn_def q_apply_def
        sample_actions_def Let_def split_beta)

lemma policy_loss_fn_explicit:
  "policy_loss_fn C obs eps a \<theta> \<phi>1 \<phi>2 =
   mean (map2 (\<lambda>ob e. case policy_net C \<theta> ob e of
            (act, m, sd, lp) \<Rightarrow> a * lp - min (qf1_net C \<phi>1 ob act) (qf2_net C \<phi>2 ob act))
     obs eps)"
  unfolding policy_loss_fn_def policy_terms_explicit ..




lemma map_of_final_entries:
  "map_of (rev (statistics_entries C auto l1 l2 lp qn n1 n2 np q1 q2 qt pm ps a al))
     ''Alpha Loss'' = Some (if auto then Num al else NaN)"
  "map_of (rev (statistics_entries C auto l1 l2 lp qn n1 n2 np q1 q2 qt pm ps a al))
     ''Alpha'' = Some (Num a)"
  by (simp_all add: statistics_entries_def)

subsection \<open>The blocks of a training call\<close>

text \<open>What each block leaves as it is, and what it returns when it raises nothing.\<close>

lemma entropy_update_frame:
  assumes "entropy_update C s lp = Inr (al, a, s')"
  shows "policy s' = policy s" "qf1 s' = qf1 s" "qf2 s' = qf2 s"
    "target_qf1 s' = target_qf1 s" "target_qf2 s' = target_qf2 s"
    "soft_target_tau s' = soft_target_tau s" "target_update_period s' = target_update_period s"
    "alpha s' = alpha s" "use_automatic_entropy_tuning s' = use_automatic_entropy_tuning s"
    "target_entropy s' = target_entropy s"
    "policy_optimizer s' = policy_optimizer s" "qf1_optimizer s' = qf1_optimizer s"
    "qf2_optimizer s' = qf2_optimizer s" "discount s' = discount s"
    "reward_scale s' = reward_scale s" "eval_statistics s' = eval_statistics s"
    "n_train_steps_total s' = n_train_steps_total s"
    "need_to_update_eval_statistics s' = need_to_update_eval_statistics s"
  using assms
  by (auto simp: entropy_update_def Let_def called_def
           split: if_splits option.splits prod.splits)

lemma policy_update_frame:
  assumes "policy_update C L a s = Inr (n, s')"
  shows 
    "target_qf1 s' = target_qf1 s" "target_qf2 s' = target_qf2 s"
    "soft_target_tau s' = soft_target_tau s" "target_update_period s' = target_update_period s"
    "alpha s' = alpha s" "use_automatic_entropy_tuning s' = use_automatic_entropy_tuning s"
    "target_entropy s' = target_entropy s" "alpha_optimizer s' = alpha_optimizer s"
    "qf1_optimizer s' = qf1_optimizer s"
    "qf2_optimizer s' = qf2_optimizer s" "discount s' = discount s"
    "reward_scale s' = reward_scale s" "eval_statistics s' = eval_statistics s"
    "n_train_steps_total s' = n_train_steps_total s"
    "need_to_update_eval_statistics s' = need_to_update_eval_statistics s"
  using assms
  by (auto simp: policy_update_def Let_def called_def
           split: if_splits option.splits prod.splits)

lemma qf1_update_frame:
  assumes "qf1_update C L s = Inr (n, s')"
  shows "policy s' = policy s" "qf2 s' = qf2 s"
    "target_qf1 s' = target_qf1 s" "target_qf2 s' = target_qf2 s"
    "soft_target_tau s' = soft_target_tau s" "target_update_period s' = target_update_period s"
    "alpha s' = alpha s" "use_automatic_entropy_tuning s' = use_automatic_entropy_tuning s"
    "target_entropy s' = target_entropy s" "log_alpha s' = log_alpha s"
    "alpha_optimizer s' = alpha_optimizer s"
    "policy_optimizer s' = policy_optimizer s"
    "qf2_optimizer s' = qf2_optimizer s" "discount s' = discount s"
    "reward_scale s' = reward_scale s" "eval_statistics s' = eval_statistics s"
    "n_train_steps_total s' = n_train_steps_total s"
    "need_to_update_eval_statistics s' = need_to_update_eval_statistics s"
  using assms
  by (auto simp: qf1_update_def Let_def called_def
           split: if_splits option.splits prod.splits)

lemma qf2_update_frame:
  assumes "qf2_update C L s = Inr (n, s')"
  shows "policy s' = policy s" "qf1 s' = qf1 s"
    "target_qf1 s' = target_qf1 s" "target_qf2 s' = target_qf2 s"
    "soft_target_tau s' = soft_target_tau s" "target_update_period s' = target_update_period s"
    "alpha s' = alpha s" "use_automatic_entropy_tuning s' = use_automatic_entropy_tuning s"
    "target_entropy s' = target_entropy s" "log_alpha s' = log_alpha s"
    "alpha_optimizer s' = alpha_optimizer s"
    "policy_optimizer s' = policy_optimizer s"
    "qf1_optimizer s' = qf1_optimizer s" "discount s' = discount s"
    "reward_scale s' = reward_scale s" "eval_statistics s' = eval_statistics s"
    "n_train_steps_total s' = n_train_steps_total s"
    "need_to_update_eval_statistics s' = need_to_update_eval_statistics s"
  using assms
  by (auto simp: qf2_update_def Let_def called_def
           split: if_splits option.splits prod.splits)

lemma soft_updates_frame:
  assumes "soft_updates s = Inr s'"
  shows "policy s' = policy s" "qf1 s' = qf1 s" "qf2 s' = qf2 s"
    "soft_target_tau s' = soft_target_tau s" "target_update_period s' = target_update_period s"
    "alpha s' = alpha s" "use_automatic_entropy_tuning s' = use_automatic_entropy_tuning s"
    "target_entropy s' = target_entropy s" "log_alpha s' = log_alpha s"
    "alpha_optimizer s' = alpha_optimizer s"
    "policy_optimizer s' = policy_optimizer s" "qf1_optimizer s' = qf1_optimizer s"
    "qf2_optimizer s' = qf2_optimizer s" "discount s' = discount s"
    "reward_scale s' = reward_scale s" "eval_statistics s' = eval_statistics s"
    "n_train_steps_total s' = n_train_steps_total s"
    "need_to_update_eval_statistics s' = need_to_update_eval_statistics s"
  using assms
  by (auto simp: soft_updates_def Let_def called_def
           split: if_splits option.splits prod.splits)

lemma param_collapse [simp]:
  "p\<lparr>grad := g, data := v\<rparr> = \<lparr>data = v, grad = g\<rparr>"
  "p\<lparr>data := v, grad := g\<rparr> = \<lparr>data = v, grad = g\<rparr>"
  by (cases p; simp)+

lemma entropy_update_called:
  assumes "entropy_update C s lp = Inr (al, a, t)"
  shows "\<exists>t'. entropy_update C (called cs s) lp = Inr (al, a, t') \<and>
           log_alpha t' = log_alpha t \<and> alpha_optimizer t' = alpha_optimizer t"
  using assms
  by (auto simp: entropy_update_def Let_def called_def
      split: if_splits option.splits prod.splits)

lemma entropy_update_fixed:
  "\<not> use_automatic_entropy_tuning s \<Longrightarrow> entropy_update C s lp = Inr (0, alpha s, s)"
  by (simp add: entropy_update_def)

lemma entropy_update_auto:
  assumes "use_automatic_entropy_tuning s" "log_alpha s = Some la"
    "target_entropy s = Some te" "alpha_optimizer s = Some opt"
  shows "entropy_update C s lp =
    (let g = autograd1 C (alpha_loss_fn lp te) (data la);
         r = optimizer_step1 C opt (data la) g
     in Inr (alpha_loss_fn lp te (data la), exp (snd r),
          called [ZeroGrad LogAlpha, Backward AlphaLoss, Step LogAlpha]
            (s\<lparr>log_alpha := Some \<lparr>data = snd r, grad = Some g\<rparr>,
               alpha_optimizer := Some (fst r)\<rparr>)))"
  using assms
  by (simp add: entropy_update_def Let_def zero_grad_def accumulate1_def step1_def
      split: prod.splits)

lemma policy_update_result:
  assumes "policy_update C L a s = Inr (np, s')" "policy_optimizer s = Some opt"
  shows "policy s' =
      (let g = snd (clip_grad_norm C
                 (autograd C (\<lambda>x. L a x (data (qf1 s)) (data (qf2 s))) (data (policy s))) 100)
       in \<lparr>data = snd (optimizer_step C opt (data (policy s)) g), grad = Some g\<rparr>)"
    "np = fst (clip_grad_norm C
                 (autograd C (\<lambda>x. L a x (data (qf1 s)) (data (qf2 s))) (data (policy s))) 100)"
    "data (qf1 s') = data (qf1 s)" "data (qf2 s') = data (qf2 s)"
    "log_alpha s' =
       (if use_automatic_entropy_tuning s
        then map_option
               (\<lambda>l. accumulate1 l
                  (autograd1 C (\<lambda>x. L (exp x) (data (policy s)) (data (qf1 s)) (data (qf2 s)))
                     (data l)))
               (log_alpha s)
        else log_alpha s)"
    "policy_optimizer s' \<noteq> None"
  using assms
  by (auto simp: policy_update_def Let_def called_def zero_grad_def accumulate_def
        clip_def step_def split: prod.splits)

lemma qf1_update_result:
  assumes "qf1_update C L s = Inr (n, s')" "qf1_optimizer s = Some opt"
  shows "qf1 s' =
      (let g = snd (clip_grad_norm C (autograd C L (data (qf1 s))) 100)
       in \<lparr>data = snd (optimizer_step C opt (data (qf1 s)) g), grad = Some g\<rparr>)"
    "n = fst (clip_grad_norm C (autograd C L (data (qf1 s))) 100)"
    "qf1_optimizer s' \<noteq> None"
  using assms
  by (auto simp: qf1_update_def Let_def called_def zero_grad_def accumulate_def
        clip_def step_def split: prod.splits)

lemma qf2_update_result:
  assumes "qf2_update C L s = Inr (n, s')" "qf2_optimizer s = Some opt"
  shows "qf2 s' =
      (let g = snd (clip_grad_norm C (autograd C L (data (qf2 s))) 100)
       in \<lparr>data = snd (optimizer_step C opt (data (qf2 s)) g), grad = Some g\<rparr>)"
    "n = fst (clip_grad_norm C (autograd C L (data (qf2 s))) 100)"
    "qf2_optimizer s' \<noteq> None"
  using assms
  by (auto simp: qf2_update_def Let_def called_def zero_grad_def accumulate_def
        clip_def step_def split: prod.splits)

lemma soft_updates_result:
  assumes "soft_updates s = Inr s'"
  shows "target_update_period s \<noteq> 0"
    "target_qf1 s' =
       (if n_train_steps_total s mod target_update_period s = 0
        then soft_update_from_to (qf1 s) (target_qf1 s) (soft_target_tau s) else target_qf1 s)"
    "target_qf2 s' =
       (if n_train_steps_total s mod target_update_period s = 0
        then soft_update_from_to (qf2 s) (target_qf2 s) (soft_target_tau s) else target_qf2 s)"
  using assms
  by (auto simp: soft_updates_def called_def split: if_splits)

subsection \<open>Lines 78 to 150 as a whole\<close>

lemma train_stepsE:
  assumes "train_steps C s b eps eps' = Inr (entries, s')"
  obtains al a s1 np s2 n1 s3 n2 s4 where
    "entropy_update C (called [Forward Policy AtObs] s)
       (sample_log_pi (policy_apply C (data (policy s)) (observations b) eps)) = Inr (al, a, s1)"
    "policy_update C (policy_loss_fn C (observations b) eps) a
       (called [Forward QF1 AtObsNewActions, Forward QF2 AtObsNewActions,
                Forward QF1 AtObsActions, Forward QF2 AtObsActions,
                Forward Policy AtNextObs,
                Forward TargetQF1 AtNextObsNewActions,
                Forward TargetQF2 AtNextObsNewActions,
                Criterion QF1, Criterion QF2] s1) = Inr (np, s2)"
    "qf1_update C (\<lambda>\<phi>. qf_criterion (q_apply (qf1_net C) \<phi> (observations b) (actions b))
        (q_target_fn (reward_scale s1) (discount s1) (rewards b) (terminals b)
           (target_q_values_fn C a (data (policy s)) (data (target_qf1 s1)) (data (target_qf2 s1))
              (next_observations b) eps'))) s2 = Inr (n1, s3)"
    "qf2_update C (\<lambda>\<phi>. qf_criterion (q_apply (qf2_net C) \<phi> (observations b) (actions b))
        (q_target_fn (reward_scale s1) (discount s1) (rewards b) (terminals b)
           (target_q_values_fn C a (data (policy s)) (data (target_qf1 s1)) (data (target_qf2 s1))
              (next_observations b) eps'))) s3 = Inr (n2, s4)"
    "soft_updates s4 = Inr s'"
    "entries = statistics_entries C (use_automatic_entropy_tuning s')
        (qf_criterion (q_apply (qf1_net C) (data (qf1 s)) (observations b) (actions b))
           (q_target_fn (reward_scale s1) (discount s1) (rewards b) (terminals b)
             (target_q_values_fn C a (data (policy s)) (data (target_qf1 s1)) (data (target_qf2 s1))
               (next_observations b) eps')))
        (qf_criterion (q_apply (qf2_net C) (data (qf2 s)) (observations b) (actions b))
           (q_target_fn (reward_scale s1) (discount s1) (rewards b) (terminals b)
             (target_q_values_fn C a (data (policy s)) (data (target_qf1 s1)) (data (target_qf2 s1))
               (next_observations b) eps')))
        (sample_log_pi (policy_apply C (data (policy s)) (observations b) eps))
        (q_new_actions_fn C (data (policy s)) (data (qf1 s)) (data (qf2 s)) (observations b) eps)
        n1 n2 np
        (q_apply (qf1_net C) (data (qf1 s)) (observations b) (actions b))
        (q_apply (qf2_net C) (data (qf2 s)) (observations b) (actions b))
        (q_target_fn (reward_scale s1) (discount s1) (rewards b) (terminals b)
             (target_q_values_fn C a (data (policy s)) (data (target_qf1 s1)) (data (target_qf2 s1))
               (next_observations b) eps'))
        (sample_mean (policy_apply C (data (policy s)) (observations b) eps))
        (sample_log_std (policy_apply C (data (policy s)) (observations b) eps))
        a al"
  using assms unfolding train_steps_def Let_def
  by (auto split: sum.splits prod.splits)

lemma train_steps_frame:
  assumes "train_steps C s b eps eps' = Inr (entries, s')"
  shows "soft_target_tau s' = soft_target_tau s"
    "target_update_period s' = target_update_period s"
    "alpha s' = alpha s" "use_automatic_entropy_tuning s' = use_automatic_entropy_tuning s"
    "target_entropy s' = target_entropy s" "discount s' = discount s"
    "reward_scale s' = reward_scale s" "eval_statistics s' = eval_statistics s"
    "n_train_steps_total s' = n_train_steps_total s"
    "need_to_update_eval_statistics s' = need_to_update_eval_statistics s"
  using assms
  by (auto elim!: train_stepsE
        simp: entropy_update_frame policy_update_frame qf1_update_frame qf2_update_frame
          soft_updates_frame)

lemma train_steps_targets:
  assumes "train_steps C s b eps eps' = Inr (entries, s')"
  shows "target_update_period s \<noteq> 0"
    "target_qf1 s' =
       (if n_train_steps_total s mod target_update_period s = 0
        then soft_update_from_to (qf1 s') (target_qf1 s) (soft_target_tau s) else target_qf1 s)"
    "target_qf2 s' =
       (if n_train_steps_total s mod target_update_period s = 0
        then soft_update_from_to (qf2 s') (target_qf2 s) (soft_target_tau s) else target_qf2 s)"
proof -
  from assms obtain al a s1 np s2 n1 s3 n2 s4 L1 L2 cs where
    e: "entropy_update C (called [Forward Policy AtObs] s)
       (sample_log_pi (policy_apply C (data (policy s)) (observations b) eps)) = Inr (al, a, s1)"
    and p: "policy_update C (policy_loss_fn C (observations b) eps) a (called cs s1) = Inr (np, s2)"
    and q1: "qf1_update C L1 s2 = Inr (n1, s3)"
    and q2: "qf2_update C L2 s3 = Inr (n2, s4)"
    and su: "soft_updates s4 = Inr s'"
    by (elim train_stepsE) blast
  note fr = entropy_update_frame[OF e] policy_update_frame[OF p] qf1_update_frame[OF q1]
    qf2_update_frame[OF q2] soft_updates_frame[OF su]
  have same: "target_update_period s4 = target_update_period s"
    "n_train_steps_total s4 = n_train_steps_total s"
    "soft_target_tau s4 = soft_target_tau s"
    "target_qf1 s4 = target_qf1 s" "target_qf2 s4 = target_qf2 s"
    "qf1 s4 = qf1 s'" "qf2 s4 = qf2 s'"
    by (simp_all add: fr)
  from soft_updates_result[OF su] same
  show "target_update_period s \<noteq> 0"
    "target_qf1 s' =
       (if n_train_steps_total s mod target_update_period s = 0
        then soft_update_from_to (qf1 s') (target_qf1 s) (soft_target_tau s) else target_qf1 s)"
    "target_qf2 s' =
       (if n_train_steps_total s mod target_update_period s = 0
        then soft_update_from_to (qf2 s') (target_qf2 s) (soft_target_tau s) else target_qf2 s)"
    by simp_all
qed

lemma train_steps_success:
  assumes "ready s"
  shows "\<exists>entries s'. train_steps C s b eps eps' = Inr (entries, s')"
  using assms
  by (auto simp: ready_def train_steps_def entropy_update_def policy_update_def qf1_update_def
        qf2_update_def soft_updates_def Let_def called_def
      split: if_splits option.splits prod.splits sum.splits)

lemma train_steps_blocks:
  assumes T: "train_steps C s b eps eps' = Inr (entries, s')"
    and E: "entropy_update C s (log_pi_at C s b eps) = Inr (al, a, t)"
  obtains s1 np s2 n1 s3 n2 s4 where
    "entropy_update C (called [Forward Policy AtObs] s) (log_pi_at C s b eps) = Inr (al, a, s1)"
    "log_alpha s1 = log_alpha t" "alpha_optimizer s1 = alpha_optimizer t"
    "policy_update C (policy_loss_fn C (observations b) eps) a
       (called [Forward QF1 AtObsNewActions, Forward QF2 AtObsNewActions,
                Forward QF1 AtObsActions, Forward QF2 AtObsActions,
                Forward Policy AtNextObs,
                Forward TargetQF1 AtNextObsNewActions,
                Forward TargetQF2 AtNextObsNewActions,
                Criterion QF1, Criterion QF2] s1) = Inr (np, s2)"
    "qf1_update C (\<lambda>\<phi>. qf_criterion (q_apply (qf1_net C) \<phi> (observations b) (actions b))
        (q_target_at C s b a eps')) s2 = Inr (n1, s3)"
    "qf2_update C (\<lambda>\<phi>. qf_criterion (q_apply (qf2_net C) \<phi> (observations b) (actions b))
        (q_target_at C s b a eps')) s3 = Inr (n2, s4)"
    "soft_updates s4 = Inr s'"
    "entries = statistics_entries C (use_automatic_entropy_tuning s)
        (qf_criterion (q_apply (qf1_net C) (data (qf1 s)) (observations b) (actions b))
           (q_target_at C s b a eps'))
        (qf_criterion (q_apply (qf2_net C) (data (qf2 s)) (observations b) (actions b))
           (q_target_at C s b a eps'))
        (log_pi_at C s b eps)
        (q_new_actions_fn C (data (policy s)) (data (qf1 s)) (data (qf2 s)) (observations b) eps)
        n1 n2 np
        (q_apply (qf1_net C) (data (qf1 s)) (observations b) (actions b))
        (q_apply (qf2_net C) (data (qf2 s)) (observations b) (actions b))
        (q_target_at C s b a eps')
        (sample_mean (policy_apply C (data (policy s)) (observations b) eps))
        (sample_log_std (policy_apply C (data (policy s)) (observations b) eps))
        a al"
proof -
  from entropy_update_called[OF E, of "[Forward Policy AtObs]"] obtain t' where
    E': "entropy_update C (called [Forward Policy AtObs] s) (log_pi_at C s b eps) = Inr (al, a, t')"
    and t': "log_alpha t' = log_alpha t" "alpha_optimizer t' = alpha_optimizer t"
    by blast
  note fr = entropy_update_frame[OF E']
  from T show ?thesis
  proof (rule train_stepsE)
    fix al' a' s1 np s2 n1 s3 n2 s4
    assume e: "entropy_update C (called [Forward Policy AtObs] s) (log_pi_at C s b eps)
                 = Inr (al', a', s1)"
    with E' have eq: "al' = al" "a' = a" "s1 = t'" by simp_all
    assume rest:
      "policy_update C (policy_loss_fn C (observations b) eps) a'
       (called [Forward QF1 AtObsNewActions, Forward QF2 AtObsNewActions,
                Forward QF1 AtObsActions, Forward QF2 AtObsActions,
                Forward Policy AtNextObs,
                Forward TargetQF1 AtNextObsNewActions,
                Forward TargetQF2 AtNextObsNewActions,
                Criterion QF1, Criterion QF2] s1) = Inr (np, s2)"
      "qf1_update C (\<lambda>\<phi>. qf_criterion (q_apply (qf1_net C) \<phi> (observations b) (actions b))
        (q_target_fn (reward_scale s1) (discount s1) (rewards b) (terminals b)
           (target_q_values_fn C a' (data (policy s)) (data (target_qf1 s1)) (data (target_qf2 s1))
              (next_observations b) eps'))) s2 = Inr (n1, s3)"
      "qf2_update C (\<lambda>\<phi>. qf_criterion (q_apply (qf2_net C) \<phi> (observations b) (actions b))
        (q_target_fn (reward_scale s1) (discount s1) (rewards b) (terminals b)
           (target_q_values_fn C a' (data (policy s)) (data (target_qf1 s1)) (data (target_qf2 s1))
              (next_observations b) eps'))) s3 = Inr (n2, s4)"
      "soft_updates s4 = Inr s'"
      "entries = statistics_entries C (use_automatic_entropy_tuning s')
        (qf_criterion (q_apply (qf1_net C) (data (qf1 s)) (observations b) (actions b))
           (q_target_fn (reward_scale s1) (discount s1) (rewards b) (terminals b)
             (target_q_values_fn C a' (data (policy s)) (data (target_qf1 s1)) (data (target_qf2 s1))
               (next_observations b) eps')))
        (qf_criterion (q_apply (qf2_net C) (data (qf2 s)) (observations b) (actions b))
           (q_target_fn (reward_scale s1) (discount s1) (rewards b) (terminals b)
             (target_q_values_fn C a' (data (policy s)) (data (target_qf1 s1)) (data (target_qf2 s1))
               (next_observations b) eps')))
        (sample_log_pi (policy_apply C (data (policy s)) (observations b) eps))
        (q_new_actions_fn C (data (policy s)) (data (qf1 s)) (data (qf2 s)) (observations b) eps)
        n1 n2 np
        (q_apply (qf1_net C) (data (qf1 s)) (observations b) (actions b))
        (q_apply (qf2_net C) (data (qf2 s)) (observations b) (actions b))
        (q_target_fn (reward_scale s1) (discount s1) (rewards b) (terminals b)
             (target_q_values_fn C a' (data (policy s)) (data (target_qf1 s1)) (data (target_qf2 s1))
               (next_observations b) eps'))
        (sample_mean (policy_apply C (data (policy s)) (observations b) eps))
        (sample_log_std (policy_apply C (data (policy s)) (observations b) eps))
        a' al'"
    have auto_same: "use_automatic_entropy_tuning s' = use_automatic_entropy_tuning s"
      using train_steps_frame[OF T] by simp
    show ?thesis
      by (rule that[of t' np s2 n1 s3 n2 s4])
         (use E' t' rest eq fr auto_same in simp_all)
  qed
qed

lemma train_steps_params:
  assumes T: "train_steps C s b eps eps' = Inr (entries, s')"
    and E: "entropy_update C s (log_pi_at C s b eps) = Inr (al, a, t)"
    and O: "policy_optimizer s = Some po" "qf1_optimizer s = Some o1" "qf2_optimizer s = Some o2"
  shows "policy s' =
      (let g = snd (clip_grad_norm C
                 (autograd C (\<lambda>x. policy_loss_fn C (observations b) eps a x
                                      (data (qf1 s)) (data (qf2 s))) (data (policy s))) 100)
       in \<lparr>data = snd (optimizer_step C po (data (policy s)) g), grad = Some g\<rparr>)"
    and "qf1 s' =
      (let g = snd (clip_grad_norm C
                 (autograd C (\<lambda>\<phi>. qf_criterion
                      (q_apply (qf1_net C) \<phi> (observations b) (actions b))
                      (q_target_at C s b a eps')) (data (qf1 s))) 100)
       in \<lparr>data = snd (optimizer_step C o1 (data (qf1 s)) g), grad = Some g\<rparr>)"
    and "qf2 s' =
      (let g = snd (clip_grad_norm C
                 (autograd C (\<lambda>\<phi>. qf_criterion
                      (q_apply (qf2_net C) \<phi> (observations b) (actions b))
                      (q_target_at C s b a eps')) (data (qf2 s))) 100)
       in \<lparr>data = snd (optimizer_step C o2 (data (qf2 s)) g), grad = Some g\<rparr>)"
    and "log_alpha s' =
       (if use_automatic_entropy_tuning s
        then map_option
               (\<lambda>l. accumulate1 l
                  (autograd1 C (\<lambda>x. policy_loss_fn C (observations b) eps (exp x)
                                        (data (policy s)) (data (qf1 s)) (data (qf2 s)))
                     (data l)))
               (log_alpha t)
        else log_alpha s)"
    and "alpha_optimizer s' = alpha_optimizer t"
    and "entries = statistics_entries C (use_automatic_entropy_tuning s)
        (qf_criterion (q_apply (qf1_net C) (data (qf1 s)) (observations b) (actions b))
           (q_target_at C s b a eps'))
        (qf_criterion (q_apply (qf2_net C) (data (qf2 s)) (observations b) (actions b))
           (q_target_at C s b a eps'))
        (log_pi_at C s b eps)
        (q_new_actions_fn C (data (policy s)) (data (qf1 s)) (data (qf2 s)) (observations b) eps)
        (fst (clip_grad_norm C
                 (autograd C (\<lambda>\<phi>. qf_criterion
                      (q_apply (qf1_net C) \<phi> (observations b) (actions b))
                      (q_target_at C s b a eps')) (data (qf1 s))) 100))
        (fst (clip_grad_norm C
                 (autograd C (\<lambda>\<phi>. qf_criterion
                      (q_apply (qf2_net C) \<phi> (observations b) (actions b))
                      (q_target_at C s b a eps')) (data (qf2 s))) 100))
        (fst (clip_grad_norm C
                 (autograd C (\<lambda>x. policy_loss_fn C (observations b) eps a x
                                      (data (qf1 s)) (data (qf2 s))) (data (policy s))) 100))
        (q_apply (qf1_net C) (data (qf1 s)) (observations b) (actions b))
        (q_apply (qf2_net C) (data (qf2 s)) (observations b) (actions b))
        (q_target_at C s b a eps')
        (sample_mean (policy_apply C (data (policy s)) (observations b) eps))
        (sample_log_std (policy_apply C (data (policy s)) (observations b) eps))
        a al"
proof -
  from T E obtain s1 np s2 n1 s3 n2 s4 where
    e: "entropy_update C (called [Forward Policy AtObs] s) (log_pi_at C s b eps) = Inr (al, a, s1)"
    and la: "log_alpha s1 = log_alpha t" "alpha_optimizer s1 = alpha_optimizer t"
    and p: "policy_update C (policy_loss_fn C (observations b) eps) a
       (called [Forward QF1 AtObsNewActions, Forward QF2 AtObsNewActions,
                Forward QF1 AtObsActions, Forward QF2 AtObsActions,
                Forward Policy AtNextObs,
                Forward TargetQF1 AtNextObsNewActions,
                Forward TargetQF2 AtNextObsNewActions,
                Criterion QF1, Criterion QF2] s1) = Inr (np, s2)"
    and q1: "qf1_update C (\<lambda>\<phi>. qf_criterion (q_apply (qf1_net C) \<phi> (observations b) (actions b))
        (q_target_at C s b a eps')) s2 = Inr (n1, s3)"
    and q2: "qf2_update C (\<lambda>\<phi>. qf_criterion (q_apply (qf2_net C) \<phi> (observations b) (actions b))
        (q_target_at C s b a eps')) s3 = Inr (n2, s4)"
    and su: "soft_updates s4 = Inr s'"
    and en: "entries = statistics_entries C (use_automatic_entropy_tuning s)
        (qf_criterion (q_apply (qf1_net C) (data (qf1 s)) (observations b) (actions b))
           (q_target_at C s b a eps'))
        (qf_criterion (q_apply (qf2_net C) (data (qf2 s)) (observations b) (actions b))
           (q_target_at C s b a eps'))
        (log_pi_at C s b eps)
        (q_new_actions_fn C (data (policy s)) (data (qf1 s)) (data (qf2 s)) (observations b) eps)
        n1 n2 np
        (q_apply (qf1_net C) (data (qf1 s)) (observations b) (actions b))
        (q_apply (qf2_net C) (data (qf2 s)) (observations b) (actions b))
        (q_target_at C s b a eps')
        (sample_mean (policy_apply C (data (policy s)) (observations b) eps))
        (sample_log_std (policy_apply C (data (policy s)) (observations b) eps))
        a al"
    by (rule train_steps_blocks)
  note fe = entropy_update_frame[OF e]
  note fp = policy_update_frame[OF p]
  note f1 = qf1_update_frame[OF q1]
  note f2 = qf2_update_frame[OF q2]
  note fs = soft_updates_frame[OF su]
  have po: "policy_optimizer
       (called [Forward QF1 AtObsNewActions, Forward QF2 AtObsNewActions,
                Forward QF1 AtObsActions, Forward QF2 AtObsActions,
                Forward Policy AtNextObs,
                Forward TargetQF1 AtNextObsNewActions,
                Forward TargetQF2 AtNextObsNewActions,
                Criterion QF1, Criterion QF2] s1) = Some po"
    using O fe by simp
  note rp = policy_update_result[OF p po]
  have o1: "qf1_optimizer s2 = Some o1" using O fe fp by simp
  note r1 = qf1_update_result[OF q1 o1]
  have o2: "qf2_optimizer s3 = Some o2" using O fe fp f1 by simp
  note r2 = qf2_update_result[OF q2 o2]
  show "policy s' =
      (let g = snd (clip_grad_norm C
                 (autograd C (\<lambda>x. policy_loss_fn C (observations b) eps a x
                                      (data (qf1 s)) (data (qf2 s))) (data (policy s))) 100)
       in \<lparr>data = snd (optimizer_step C po (data (policy s)) g), grad = Some g\<rparr>)"
    using rp(1) fe fs f1 f2 by simp
  show "qf1 s' =
      (let g = snd (clip_grad_norm C
                 (autograd C (\<lambda>\<phi>. qf_criterion
                      (q_apply (qf1_net C) \<phi> (observations b) (actions b))
                      (q_target_at C s b a eps')) (data (qf1 s))) 100)
       in \<lparr>data = snd (optimizer_step C o1 (data (qf1 s)) g), grad = Some g\<rparr>)"
    using r1(1) rp(3) fe fs f2 by simp
  show "qf2 s' =
      (let g = snd (clip_grad_norm C
                 (autograd C (\<lambda>\<phi>. qf_criterion
                      (q_apply (qf2_net C) \<phi> (observations b) (actions b))
                      (q_target_at C s b a eps')) (data (qf2 s))) 100)
       in \<lparr>data = snd (optimizer_step C o2 (data (qf2 s)) g), grad = Some g\<rparr>)"
    using r2(1) rp(4) f1 fe fs by simp
  show "log_alpha s' =
       (if use_automatic_entropy_tuning s
        then map_option
               (\<lambda>l. accumulate1 l
                  (autograd1 C (\<lambda>x. policy_loss_fn C (observations b) eps (exp x)
                                        (data (policy s)) (data (qf1 s)) (data (qf2 s)))
                     (data l)))
               (log_alpha t)
        else log_alpha s)"
  proof (cases "use_automatic_entropy_tuning s")
    case True
    then show ?thesis using rp(5) fe fs f1 f2 la by simp
  next
    case False
    with E have "t = s" by (simp add: entropy_update_fixed)
    with False show ?thesis using rp(5) fe fs f1 f2 la by simp
  qed
  show "alpha_optimizer s' = alpha_optimizer t"
    using fp fs f1 f2 la by simp
  show "entries = statistics_entries C (use_automatic_entropy_tuning s)
        (qf_criterion (q_apply (qf1_net C) (data (qf1 s)) (observations b) (actions b))
           (q_target_at C s b a eps'))
        (qf_criterion (q_apply (qf2_net C) (data (qf2 s)) (observations b) (actions b))
           (q_target_at C s b a eps'))
        (log_pi_at C s b eps)
        (q_new_actions_fn C (data (policy s)) (data (qf1 s)) (data (qf2 s)) (observations b) eps)
        (fst (clip_grad_norm C
                 (autograd C (\<lambda>\<phi>. qf_criterion
                      (q_apply (qf1_net C) \<phi> (observations b) (actions b))
                      (q_target_at C s b a eps')) (data (qf1 s))) 100))
        (fst (clip_grad_norm C
                 (autograd C (\<lambda>\<phi>. qf_criterion
                      (q_apply (qf2_net C) \<phi> (observations b) (actions b))
                      (q_target_at C s b a eps')) (data (qf2 s))) 100))
        (fst (clip_grad_norm C
                 (autograd C (\<lambda>x. policy_loss_fn C (observations b) eps a x
                                      (data (qf1 s)) (data (qf2 s))) (data (policy s))) 100))
        (q_apply (qf1_net C) (data (qf1 s)) (observations b) (actions b))
        (q_apply (qf2_net C) (data (qf2 s)) (observations b) (actions b))
        (q_target_at C s b a eps')
        (sample_mean (policy_apply C (data (policy s)) (observations b) eps))
        (sample_log_std (policy_apply C (data (policy s)) (observations b) eps))
        a al"
    using en r1(2) r2(2) rp(2) rp(3) rp(4) fe f1 by simp
qed

lemma train_steps_calls:
  assumes "train_steps C s b eps eps' = Inr (entries, s')"
  shows "calls s' = calls s @ [Forward Policy AtObs]
      @ (if use_automatic_entropy_tuning s
         then [ZeroGrad LogAlpha, Backward AlphaLoss, Step LogAlpha] else [])
      @ [Forward QF1 AtObsNewActions, Forward QF2 AtObsNewActions,
         Forward QF1 AtObsActions, Forward QF2 AtObsActions,
         Forward Policy AtNextObs,
         Forward TargetQF1 AtNextObsNewActions, Forward TargetQF2 AtNextObsNewActions,
         Criterion QF1, Criterion QF2,
         ZeroGrad Policy, Backward PolicyLoss, ClipGradNorm Policy, Step Policy,
         ZeroGrad QF1, Backward QF1Loss, ClipGradNorm QF1, Step QF1,
         ZeroGrad QF2, Backward QF2Loss, ClipGradNorm QF2, Step QF2]
      @ (if n_train_steps_total s mod target_update_period s = 0
         then [SoftUpdate QF1 TargetQF1, SoftUpdate QF2 TargetQF2] else [])"
  using assms
  by (auto simp: train_steps_def entropy_update_def policy_update_def qf1_update_def
        qf2_update_def soft_updates_def Let_def called_def
      split: if_splits option.splits prod.splits sum.splits)

lemma train_steps_keeps_ready:
  assumes "train_steps C s b eps eps' = Inr (entries, s')"
  shows "ready s" "ready s'"
  using assms
  by (auto simp: ready_def train_steps_def entropy_update_def policy_update_def qf1_update_def
        qf2_update_def soft_updates_def Let_def called_def
      split: if_splits option.splits prod.splits sum.splits)

lemma train_steps_missing_optimizer:
  assumes "use_automatic_entropy_tuning s \<longrightarrow>
        log_alpha s \<noteq> None \<and> target_entropy s \<noteq> None \<and> alpha_optimizer s \<noteq> None"
  shows "policy_optimizer s = None \<Longrightarrow>
           train_steps C s b eps eps' = Inl (AttributeError ''policy_optimizer'')"
    and "policy_optimizer s \<noteq> None \<Longrightarrow> qf1_optimizer s = None \<Longrightarrow>
           train_steps C s b eps eps' = Inl (AttributeError ''qf1_optimizer'')"
    and "policy_optimizer s \<noteq> None \<Longrightarrow> qf1_optimizer s \<noteq> None \<Longrightarrow> qf2_optimizer s = None \<Longrightarrow>
           train_steps C s b eps eps' = Inl (AttributeError ''qf2_optimizer'')"
  using assms
  by (auto simp: train_steps_def entropy_update_def policy_update_def qf1_update_def
        qf2_update_def Let_def called_def
      split: if_splits option.splits prod.splits sum.splits)

subsection \<open>The training call and runs of training calls\<close>

lemma save_statistics_fields [simp]:
  "policy (save_statistics e s) = policy s" "qf1 (save_statistics e s) = qf1 s"
  "qf2 (save_statistics e s) = qf2 s"
  "target_qf1 (save_statistics e s) = target_qf1 s"
  "target_qf2 (save_statistics e s) = target_qf2 s"
  "soft_target_tau (save_statistics e s) = soft_target_tau s"
  "target_update_period (save_statistics e s) = target_update_period s"
  "alpha (save_statistics e s) = alpha s"
  "use_automatic_entropy_tuning (save_statistics e s) = use_automatic_entropy_tuning s"
  "target_entropy (save_statistics e s) = target_entropy s"
  "log_alpha (save_statistics e s) = log_alpha s"
  "alpha_optimizer (save_statistics e s) = alpha_optimizer s"
  "policy_optimizer (save_statistics e s) = policy_optimizer s"
  "qf1_optimizer (save_statistics e s) = qf1_optimizer s"
  "qf2_optimizer (save_statistics e s) = qf2_optimizer s"
  "discount (save_statistics e s) = discount s"
  "reward_scale (save_statistics e s) = reward_scale s"
  "n_train_steps_total (save_statistics e s) = n_train_steps_total s"
  "calls (save_statistics e s) = calls s"
  "need_to_update_eval_statistics (save_statistics e s) = False"
  "eval_statistics (save_statistics e s) =
     (if need_to_update_eval_statistics s then dict_update (eval_statistics s) e
      else eval_statistics s)"
  by (simp_all add: save_statistics_def)

lemma train_from_torch_steps:
  "train_steps C s b eps eps' = Inr (entries, t) \<Longrightarrow>
   train_from_torch C s b eps eps' =
     Inr ((save_statistics entries t)\<lparr>n_train_steps_total := n_train_steps_total t + 1\<rparr>)"
  by (simp add: train_from_torch_def Let_def)


lemma train_from_torch_Inl:
  "train_steps C s b eps eps' = Inl e \<Longrightarrow> train_from_torch C s b eps eps' = Inl e"
  by (simp add: train_from_torch_def)

lemma ready_fields:
  "ready (s\<lparr>n_train_steps_total := n\<rparr>) = ready s"
  "ready (save_statistics e s) = ready s"
  "ready (end_epoch s k) = ready s"
  by (simp_all add: ready_def end_epoch_def)

lemma ready_optimizers:
  assumes "ready s"
  obtains po o1 o2 where "policy_optimizer s = Some po" "qf1_optimizer s = Some o1"
    "qf2_optimizer s = Some o2"
  using assms by (auto simp: ready_def)

lemma train_from_torch_ready:
  assumes "ready s"
  obtains entries t where
    "train_steps C s b eps eps' = Inr (entries, t)"
    "train_from_torch C s b eps eps' =
       Inr ((save_statistics entries t)\<lparr>n_train_steps_total := n_train_steps_total t + 1\<rparr>)"
    "ready ((save_statistics entries t)\<lparr>n_train_steps_total := n_train_steps_total t + 1\<rparr>)"
proof -
  from train_steps_success[OF assms] obtain entries t where
    T: "train_steps C s b eps eps' = Inr (entries, t)" by blast
  show ?thesis
    using that[OF T train_from_torch_steps[OF T]] train_steps_keeps_ready(2)[OF T]
    by (simp add: ready_fields)
qed




lemma train_from_torch_targets:
  assumes "ready s"
  obtains s' where "train_from_torch C s b eps eps' = Inr s'"
    "n_train_steps_total s' = n_train_steps_total s + 1"
    "target_qf1 s' =
       (if n_train_steps_total s mod target_update_period s = 0
        then soft_update_from_to (qf1 s') (target_qf1 s) (soft_target_tau s) else target_qf1 s)"
    "target_qf2 s' =
       (if n_train_steps_total s mod target_update_period s = 0
        then soft_update_from_to (qf2 s') (target_qf2 s) (soft_target_tau s) else target_qf2 s)"
proof -
  from assms obtain entries t where
    T: "train_steps C s b eps eps' = Inr (entries, t)"
    and 1: "train_from_torch C s b eps eps' =
       Inr ((save_statistics entries t)\<lparr>n_train_steps_total := n_train_steps_total t + 1\<rparr>)"
    by (rule train_from_torch_ready)
  show ?thesis
    by (rule that[OF 1]) (use train_steps_targets[OF T] train_steps_frame[OF T] in simp_all)
qed

subsection \<open>The constructor\<close>

lemma ready_sac_init:
  "arg_policy_optimizer a = None \<Longrightarrow> arg_qf1_optimizer a = None \<Longrightarrow>
   arg_qf2_optimizer a = None \<Longrightarrow> arg_target_update_period a \<noteq> 0 \<Longrightarrow>
   ready (sac_init C a)"
  by (simp add: ready_def sac_init_def Let_def truthy_def split: option.splits)

lemma sac_init_entropy_attributes:
  "use_automatic_entropy_tuning (sac_init C a) \<longrightarrow>
     log_alpha (sac_init C a) \<noteq> None \<and> target_entropy (sac_init C a) \<noteq> None \<and>
     alpha_optimizer (sac_init C a) \<noteq> None"
  by (simp add: sac_init_def Let_def truthy_def split: option.splits)

lemma sac_init_optimizers:
  "policy_optimizer (sac_init C a) = None \<longleftrightarrow> arg_policy_optimizer a \<noteq> None"
  "qf1_optimizer (sac_init C a) = None \<longleftrightarrow> arg_qf1_optimizer a \<noteq> None"
  "qf2_optimizer (sac_init C a) = None \<longleftrightarrow> arg_qf2_optimizer a \<noteq> None"
  by (simp_all add: sac_init_def Let_def)

subsection \<open>The example inputs\<close>

lemma ready_example_trainer: "ready example_trainer"
  by (simp add: example_trainer_def ready_sac_init example_args_def)

lemma ready_example_auto_trainer: "ready example_auto_trainer"
  by (simp add: example_auto_trainer_def ready_sac_init example_args_def)

lemma example_trainer_fields:
  "policy example_trainer = \<lparr>data = [0], grad = None\<rparr>"
  "qf1 example_trainer = \<lparr>data = [1], grad = None\<rparr>"
  "qf2 example_trainer = \<lparr>data = [2], grad = None\<rparr>"
  "target_qf1 example_trainer = \<lparr>data = [1], grad = None\<rparr>"
  "target_qf2 example_trainer = \<lparr>data = [2], grad = None\<rparr>"
  "soft_target_tau example_trainer = 1 / 2"
  "target_update_period example_trainer = 1"
  "alpha example_trainer = 1 / 5"
  "use_automatic_entropy_tuning example_trainer = False"
  "target_entropy example_trainer = None"
  "log_alpha example_trainer = None"
  "alpha_optimizer example_trainer = None"
  "policy_optimizer example_trainer = Some (1, 0)"
  "qf1_optimizer example_trainer = Some (1, 0)"
  "qf2_optimizer example_trainer = Some (1, 0)"
  "discount example_trainer = 1 / 2"
  "reward_scale example_trainer = 1"
  "eval_statistics example_trainer = []"
  "n_train_steps_total example_trainer = 0"
  "need_to_update_eval_statistics example_trainer = True"
  "calls example_trainer = []"
  by (simp_all add: example_trainer_def sac_init_def example_args_def example_caps_def)

lemma example_auto_trainer_fields:
  "policy example_auto_trainer = \<lparr>data = [0], grad = None\<rparr>"
  "qf1 example_auto_trainer = \<lparr>data = [1], grad = None\<rparr>"
  "qf2 example_auto_trainer = \<lparr>data = [2], grad = None\<rparr>"
  "target_qf1 example_auto_trainer = \<lparr>data = [1], grad = None\<rparr>"
  "target_qf2 example_auto_trainer = \<lparr>data = [2], grad = None\<rparr>"
  "soft_target_tau example_auto_trainer = 1 / 2"
  "target_update_period example_auto_trainer = 1"
  "alpha example_auto_trainer = 1 / 5"
  "use_automatic_entropy_tuning example_auto_trainer = True"
  "target_entropy example_auto_trainer = Some (- 1)"
  "log_alpha example_auto_trainer = Some \<lparr>data = 0, grad = None\<rparr>"
  "alpha_optimizer example_auto_trainer = Some (1, 0)"
  "policy_optimizer example_auto_trainer = Some (1, 0)"
  "qf1_optimizer example_auto_trainer = Some (1, 0)"
  "qf2_optimizer example_auto_trainer = Some (1, 0)"
  "discount example_auto_trainer = 1 / 2"
  "reward_scale example_auto_trainer = 1"
  "eval_statistics example_auto_trainer = []"
  "n_train_steps_total example_auto_trainer = 0"
  "need_to_update_eval_statistics example_auto_trainer = True"
  "calls example_auto_trainer = []"
  by (simp_all add: example_auto_trainer_def sac_init_def example_args_def example_caps_def
        truthy_def heuristic_target_entropy_def)

lemma example_caps_fields:
  "policy_net example_caps = (\<lambda>\<theta> ob e. (sum_list \<theta> + e, [sum_list \<theta>], [0], ob))"
  "qf1_net example_caps = (\<lambda>\<phi> ob act. sum_list \<phi> * act)"
  "qf2_net example_caps = (\<lambda>\<phi> ob act. sum_list \<phi> + act)"
  "target_qf1_net example_caps = (\<lambda>\<phi> ob act. sum_list \<phi> * act)"
  "target_qf2_net example_caps = (\<lambda>\<phi> ob act. sum_list \<phi> + act)"
  "autograd example_caps = (\<lambda>f x. map (\<lambda>i. f (x[i := x ! i + 1]) - f x) [0..<length x])"
  "autograd1 example_caps = (\<lambda>f x. f (x + 1) - f x)"
  "clip_grad_norm example_caps =
        (\<lambda>g m. let n = sum_list (map abs g)
               in (n, if m < n then map (\<lambda>x. x * (m / n)) g else g))"
  "optimizer_step example_caps = (\<lambda>(lr, k) v g. ((lr, Suc k), map2 (\<lambda>x d. x - lr * d) v g))"
  "optimizer_step1 example_caps = (\<lambda>(lr, k) v g. ((lr, Suc k), v - lr * g))"
  by (simp_all add: example_caps_def)


lemma example_batch_fields:
  "rewards example_batch = [1]" "terminals example_batch = [0]"
  "observations example_batch = [1]" "actions example_batch = [1]"
  "next_observations example_batch = [2]"
  by (simp_all add: example_batch_def)

lemma example_entropy_update:
  "entropy_update example_caps example_trainer lp = Inr (0, 1 / 5, example_trainer)"
  by (simp add: entropy_update_fixed example_trainer_fields)

lemma example_log_pi:
  "log_pi_at example_caps example_trainer example_batch [0] = [1]"
  "log_pi_at example_caps example_auto_trainer example_batch [0] = [1]"
  by (simp_all add: sample_log_pi_def policy_apply_def example_caps_fields
        example_batch_fields)

lemma example_auto_entropy_update:
  "entropy_update example_caps example_auto_trainer [1] =
     Inr (0, 1,
       called [ZeroGrad LogAlpha, Backward AlphaLoss, Step LogAlpha]
         (example_auto_trainer\<lparr>log_alpha := Some \<lparr>data = 0, grad = Some 0\<rparr>,
                                alpha_optimizer := Some (1, 1)\<rparr>))"
  using entropy_update_auto [of example_auto_trainer "\<lparr>data = 0, grad = None\<rparr>" "- 1" "(1, 0)"
          example_caps "[1]"]
  by (simp add: example_auto_trainer_fields example_caps_fields alpha_loss_fn_def mean_def
        Let_def)

lemma example_q_target:
  "q_target_at example_caps example_trainer example_batch (1 / 5) [0] = [4 / 5]"
  by (simp add: q_target_fn_def target_q_values_fn_def policy_apply_def q_apply_def
        sample_actions_def sample_log_pi_def Let_def
        example_trainer_fields example_caps_fields example_batch_fields)

section \<open>Claims\<close>

text \<open>
  C1, counterexample. The critic target is built before the policy is stepped. On the
  example trainer the target critics are called before the step of the policy's optimizer;
  the policy goes from
  \<open>[0]\<close> to \<open>[1]\<close>, the target from the policy before its step is \<open>[4 / 5]\<close>, the target
  from the policy after its step would be \<open>[13 / 10]\<close>, and the gradient that \<^verbatim>\<open>qf1\<close> is
  stepped along is the one against \<open>[4 / 5]\<close>.
\<close>

theorem target_built_before_policy_step:
  "\<not> isl (train_from_torch example_caps example_trainer example_batch [0] [0]) \<and>
   Forward TargetQF1 AtNextObsNewActions \<in>
     set (takeWhile (\<lambda>c. c \<noteq> Step Policy)
            (calls (projr (train_from_torch example_caps example_trainer example_batch [0] [0])))) \<and>
   data (policy example_trainer) = [0] \<and>
   data (policy (projr (train_from_torch example_caps example_trainer example_batch [0] [0])))
     = [1] \<and>
   q_target_fn 1 (1 / 2) [1] [0] (target_q_values_fn example_caps (1 / 5) [0] [1] [2] [2] [0])
     = [4 / 5] \<and>
   q_target_fn 1 (1 / 2) [1] [0] (target_q_values_fn example_caps (1 / 5) [1] [1] [2] [2] [0])
     = [13 / 10] \<and>
   grad (qf1 (projr (train_from_torch example_caps example_trainer example_batch [0] [0])))
     = Some (autograd example_caps
               (\<lambda>\<phi>. qf_criterion (q_apply (qf1_net example_caps) \<phi> [1] [1]) [4 / 5]) [1]) \<and>
   grad (qf1 (projr (train_from_torch example_caps example_trainer example_batch [0] [0])))
     \<noteq> Some (autograd example_caps
               (\<lambda>\<phi>. qf_criterion (q_apply (qf1_net example_caps) \<phi> [1] [1]) [13 / 10]) [1])"
proof -
  from ready_example_trainer obtain entries u where
    T: "train_steps example_caps example_trainer example_batch [0] [0] = Inr (entries, u)"
    and 1: "train_from_torch example_caps example_trainer example_batch [0] [0] =
       Inr ((save_statistics entries u)\<lparr>n_train_steps_total := n_train_steps_total u + 1\<rparr>)"
    by (rule train_from_torch_ready)
  note P = train_steps_params[OF T example_entropy_update example_trainer_fields(13,14,15)]
  have c: "calls u = [Forward Policy AtObs,
         Forward QF1 AtObsNewActions, Forward QF2 AtObsNewActions,
         Forward QF1 AtObsActions, Forward QF2 AtObsActions,
         Forward Policy AtNextObs,
         Forward TargetQF1 AtNextObsNewActions, Forward TargetQF2 AtNextObsNewActions,
         Criterion QF1, Criterion QF2,
         ZeroGrad Policy, Backward PolicyLoss, ClipGradNorm Policy, Step Policy,
         ZeroGrad QF1, Backward QF1Loss, ClipGradNorm QF1, Step QF1,
         ZeroGrad QF2, Backward QF2Loss, ClipGradNorm QF2, Step QF2,
         SoftUpdate QF1 TargetQF1, SoftUpdate QF2 TargetQF2]"
    using train_steps_calls[OF T] by (simp add: example_trainer_fields)
  have p: "policy u = \<lparr>data = [1], grad = Some [- 1]\<rparr>"
    unfolding P(1)
    by (simp add: example_trainer_fields example_caps_fields example_batch_fields mean_def
          Let_def policy_loss_fn_explicit)
  have q: "qf1 u = \<lparr>data = [- 2 / 5], grad = Some [7 / 5]\<rparr>"
    unfolding P(2) example_q_target
    by (simp add: example_trainer_fields example_caps_fields example_batch_fields mean_def
          Let_def qf_criterion_def q_apply_def power2_eq_square)
  have t: "q_target_fn 1 (1 / 2) [1] [0]
             (target_q_values_fn example_caps (1 / 5) [0] [1] [2] [2] [0]) = [4 / 5]"
    "q_target_fn 1 (1 / 2) [1] [0]
             (target_q_values_fn example_caps (1 / 5) [1] [1] [2] [2] [0]) = [13 / 10]"
    by (simp_all add: q_target_fn_def target_q_values_fn_def policy_apply_def q_apply_def
          sample_actions_def sample_log_pi_def Let_def example_caps_fields)
  have g: "autograd example_caps
               (\<lambda>\<phi>. qf_criterion (q_apply (qf1_net example_caps) \<phi> [1] [1]) [4 / 5]) [1]
             = [7 / 5]"
    "autograd example_caps
               (\<lambda>\<phi>. qf_criterion (q_apply (qf1_net example_caps) \<phi> [1] [1]) [13 / 10]) [1]
             = [2 / 5]"
    by (simp_all add: example_caps_fields mean_def qf_criterion_def q_apply_def
          power2_eq_square)
  show ?thesis
    unfolding 1 t g
    by (simp add: c p q example_trainer_fields)
qed

text \<open>
  C1 (amended). On a trainer on which training calls raise nothing, the collaborators are
  invoked in this order: the policy at the observations; with automatic tuning the update of
  the entropy coefficient; the two critics at the new actions (the policy loss); the two
  critics at the replayed actions, the policy at the next observations, the two target
  critics (the critic target) and the two critic losses; then the backward pass and the
  optimizer step of the policy; then those of \<^verbatim>\<open>qf1\<close>; then those of \<^verbatim>\<open>qf2\<close>; then the
  soft updates when they are due. So the policy is stepped before any critic parameter
  changes, along the gradient of the policy loss at the critics' parameters of before the
  call; and the critic target is computed before the policy's backward pass and step: both
  critics are stepped against the target computed from the policy's and the target critics'
  parameters of before the call.
\<close>

theorem steps_follow_all_losses:
  assumes "ready s"
    and "entropy_update C s (log_pi_at C s b eps) = Inr (al, a, t)"
    and "policy_optimizer s = Some po"
    and "qf1_optimizer s = Some o1" and "qf2_optimizer s = Some o2"
  shows "\<exists>s'. train_from_torch C s b eps eps' = Inr s' \<and>
    calls s' = calls s @ [Forward Policy AtObs]
      @ (if use_automatic_entropy_tuning s
         then [ZeroGrad LogAlpha, Backward AlphaLoss, Step LogAlpha] else [])
      @ [Forward QF1 AtObsNewActions, Forward QF2 AtObsNewActions,
         Forward QF1 AtObsActions, Forward QF2 AtObsActions,
         Forward Policy AtNextObs,
         Forward TargetQF1 AtNextObsNewActions, Forward TargetQF2 AtNextObsNewActions,
         Criterion QF1, Criterion QF2,
         ZeroGrad Policy, Backward PolicyLoss, ClipGradNorm Policy, Step Policy,
         ZeroGrad QF1, Backward QF1Loss, ClipGradNorm QF1, Step QF1,
         ZeroGrad QF2, Backward QF2Loss, ClipGradNorm QF2, Step QF2]
      @ (if n_train_steps_total s mod target_update_period s = 0
         then [SoftUpdate QF1 TargetQF1, SoftUpdate QF2 TargetQF2] else []) \<and>
    policy s' =
      (let g = snd (clip_grad_norm C
                 (autograd C (\<lambda>x. policy_loss_fn C (observations b) eps a x
                                      (data (qf1 s)) (data (qf2 s))) (data (policy s))) 100)
       in \<lparr>data = snd (optimizer_step C po (data (policy s)) g), grad = Some g\<rparr>) \<and>
    qf1 s' =
      (let g = snd (clip_grad_norm C
                 (autograd C (\<lambda>\<phi>. qf_criterion
                      (q_apply (qf1_net C) \<phi> (observations b) (actions b))
                      (q_target_fn (reward_scale s) (discount s) (rewards b) (terminals b)
                         (target_q_values_fn C a (data (policy s))
                            (data (target_qf1 s)) (data (target_qf2 s))
                            (next_observations b) eps'))) (data (qf1 s))) 100)
       in \<lparr>data = snd (optimizer_step C o1 (data (qf1 s)) g), grad = Some g\<rparr>) \<and>
    qf2 s' =
      (let g = snd (clip_grad_norm C
                 (autograd C (\<lambda>\<phi>. qf_criterion
                      (q_apply (qf2_net C) \<phi> (observations b) (actions b))
                      (q_target_fn (reward_scale s) (discount s) (rewards b) (terminals b)
                         (target_q_values_fn C a (data (policy s))
                            (data (target_qf1 s)) (data (target_qf2 s))
                            (next_observations b) eps'))) (data (qf2 s))) 100)
       in \<lparr>data = snd (optimizer_step C o2 (data (qf2 s)) g), grad = Some g\<rparr>)"
proof -
  from assms(1) obtain entries u where
    T: "train_steps C s b eps eps' = Inr (entries, u)"
    and 1: "train_from_torch C s b eps eps' =
       Inr ((save_statistics entries u)\<lparr>n_train_steps_total := n_train_steps_total u + 1\<rparr>)"
    by (rule train_from_torch_ready)
  note P = train_steps_params[OF T assms(2-5)]
  show ?thesis
    apply (rule exI[of _ "(save_statistics entries u)\<lparr>n_train_steps_total := n_train_steps_total u + 1\<rparr>"])
    using 1 train_steps_calls[OF T] P(1,2,3) by simp
qed

theorem steps_follow_all_losses_witness:
  "ready example_trainer \<and>
   entropy_update example_caps example_trainer
     (log_pi_at example_caps example_trainer example_batch [0]) = Inr (0, 1 / 5, example_trainer) \<and>
   policy_optimizer example_trainer = Some (1, 0) \<and>
   qf1_optimizer example_trainer = Some (1, 0) \<and>
   qf2_optimizer example_trainer = Some (1, 0) \<and>
   (\<exists>s'. train_from_torch example_caps example_trainer example_batch [0] [0] = Inr s' \<and>
      calls s' =
        [Forward Policy AtObs,
         Forward QF1 AtObsNewActions, Forward QF2 AtObsNewActions,
         Forward QF1 AtObsActions, Forward QF2 AtObsActions,
         Forward Policy AtNextObs,
         Forward TargetQF1 AtNextObsNewActions, Forward TargetQF2 AtNextObsNewActions,
         Criterion QF1, Criterion QF2,
         ZeroGrad Policy, Backward PolicyLoss, ClipGradNorm Policy, Step Policy,
         ZeroGrad QF1, Backward QF1Loss, ClipGradNorm QF1, Step QF1,
         ZeroGrad QF2, Backward QF2Loss, ClipGradNorm QF2, Step QF2,
         SoftUpdate QF1 TargetQF1, SoftUpdate QF2 TargetQF2] \<and>
      policy s' = \<lparr>data = [1], grad = Some [- 1]\<rparr> \<and>
      qf1 s' = \<lparr>data = [- 2 / 5], grad = Some [7 / 5]\<rparr>)"
proof -
  from steps_follow_all_losses [OF ready_example_trainer example_entropy_update
         example_trainer_fields(13,14,15), of example_batch "[0]" "[0]"]
  obtain s' where
    "train_from_torch example_caps example_trainer example_batch [0] [0] = Inr s'"
    "calls s' =
        [Forward Policy AtObs,
         Forward QF1 AtObsNewActions, Forward QF2 AtObsNewActions,
         Forward QF1 AtObsActions, Forward QF2 AtObsActions,
         Forward Policy AtNextObs,
         Forward TargetQF1 AtNextObsNewActions, Forward TargetQF2 AtNextObsNewActions,
         Criterion QF1, Criterion QF2,
         ZeroGrad Policy, Backward PolicyLoss, ClipGradNorm Policy, Step Policy,
         ZeroGrad QF1, Backward QF1Loss, ClipGradNorm QF1, Step QF1,
         ZeroGrad QF2, Backward QF2Loss, ClipGradNorm QF2, Step QF2,
         SoftUpdate QF1 TargetQF1, SoftUpdate QF2 TargetQF2]"
    "policy s' = \<lparr>data = [1], grad = Some [- 1]\<rparr>"
    "qf1 s' = \<lparr>data = [- 2 / 5], grad = Some [7 / 5]\<rparr>"
    unfolding example_q_target
    by (auto simp: example_trainer_fields example_caps_fields example_batch_fields mean_def
          Let_def qf_criterion_def q_apply_def power2_eq_square policy_loss_fn_explicit)
  then show ?thesis
    using ready_example_trainer example_entropy_update
    by (auto simp: example_trainer_fields)
qed



text \<open>
  C3, counterexample. The coefficient of line 96 is not detached. On the example trainer
  with automatic tuning the accumulator of \<^verbatim>\<open>log_alpha\<close> holds the gradient of the coefficient's own loss,
  zero, after the entropy block, and \<open>exp 1 - 1\<close> after the call: the backward pass of the
  policy loss has added its gradient with respect to \<^verbatim>\<open>log_alpha\<close>.
\<close>

theorem policy_loss_reaches_log_alpha:
  "\<not> isl (train_from_torch example_caps example_auto_trainer example_batch [0] [0]) \<and>
   log_alpha (snd (snd (projr (entropy_update example_caps example_auto_trainer
       (log_pi_at example_caps example_auto_trainer example_batch [0])))))
     = Some \<lparr>data = 0, grad = Some 0\<rparr> \<and>
   log_alpha (projr (train_from_torch example_caps example_auto_trainer example_batch [0] [0]))
     = Some \<lparr>data = 0, grad = Some (exp 1 - 1)\<rparr> \<and>
   exp 1 - 1 \<noteq> (0::real)"
proof -
  from ready_example_auto_trainer obtain entries u where
    T: "train_steps example_caps example_auto_trainer example_batch [0] [0] = Inr (entries, u)"
    and 1: "train_from_torch example_caps example_auto_trainer example_batch [0] [0] =
       Inr ((save_statistics entries u)\<lparr>n_train_steps_total := n_train_steps_total u + 1\<rparr>)"
    by (rule train_from_torch_ready)
  have E: "entropy_update example_caps example_auto_trainer
       (log_pi_at example_caps example_auto_trainer example_batch [0]) =
     Inr (0, 1,
       called [ZeroGrad LogAlpha, Backward AlphaLoss, Step LogAlpha]
         (example_auto_trainer\<lparr>log_alpha := Some \<lparr>data = 0, grad = Some 0\<rparr>,
                                alpha_optimizer := Some (1, 1)\<rparr>))"
    unfolding example_log_pi by (rule example_auto_entropy_update)
  note P = train_steps_params[OF T E example_auto_trainer_fields(13,14,15)]
  have "log_alpha u = Some \<lparr>data = 0, grad = Some (exp 1 - 1)\<rparr>"
    unfolding P(4)
    by (simp add: example_auto_trainer_fields example_caps_fields example_batch_fields
          accumulate1_def policy_loss_fn_explicit mean_def)
  then show ?thesis
    using 1 E by simp
qed

text \<open>
  C3 (amended). On a trainer with automatic entropy tuning on which training calls raise
  nothing, the entropy block computes the loss minus the mean of \<^verbatim>\<open>log_alpha\<close> times
  (log-probability plus target entropy), with the second factor a constant; it empties the
  accumulator of \<^verbatim>\<open>log_alpha\<close>, takes the gradient of that loss alone, makes one optimizer
  step from the old value along it, and passes on the exponential of the stepped value, which
  is positive (in exact arithmetic). The call makes exactly one step of that optimizer. The
  coefficient stays attached to \<^verbatim>\<open>log_alpha\<close>: after the call the accumulator holds the
  gradient of the coefficient's loss plus the gradient of the policy loss with respect to
  \<^verbatim>\<open>log_alpha\<close>, while the value of \<^verbatim>\<open>log_alpha\<close> and the optimizer state are the ones
  the single step produced. The statistics entries carry the coefficient and the loss.
\<close>

theorem entropy_coefficient_stepped_once:
  assumes "ready s" and "use_automatic_entropy_tuning s"
    and "log_alpha s = Some la" and "target_entropy s = Some te"
    and "alpha_optimizer s = Some opt"
  shows
   "let lp = log_pi_at C s b eps;
        g = autograd1 C (\<lambda>l. - mean (map (\<lambda>x. l * (x + te)) lp)) (data la);
        r = optimizer_step1 C opt (data la) g
    in entropy_update C s lp =
         Inr (- mean (map (\<lambda>x. data la * (x + te)) lp), exp (snd r),
              called [ZeroGrad LogAlpha, Backward AlphaLoss, Step LogAlpha]
                (s\<lparr>log_alpha := Some \<lparr>data = snd r, grad = Some g\<rparr>,
                   alpha_optimizer := Some (fst r)\<rparr>)) \<and>
       0 < exp (snd r) \<and>
       (\<exists>entries u s'.
          train_steps C s b eps eps' = Inr (entries, u) \<and>
          train_from_torch C s b eps eps' = Inr s' \<and>
          log_alpha s' =
            Some \<lparr>data = snd r,
                  grad = Some (g + autograd1 C
                                     (\<lambda>x. policy_loss_fn C (observations b) eps (exp x)
                                            (data (policy s)) (data (qf1 s)) (data (qf2 s)))
                                     (snd r))\<rparr> \<and>
          alpha_optimizer s' = Some (fst r) \<and>
          count_list (drop (length (calls s)) (calls s')) (Step LogAlpha) = 1 \<and>
          map_of (rev entries) ''Alpha'' = Some (Num (exp (snd r))) \<and>
          map_of (rev entries) ''Alpha Loss'' =
            Some (Num (- mean (map (\<lambda>x. data la * (x + te)) lp))))"
proof -
  define lp where "lp = log_pi_at C s b eps"
  define g where "g = autograd1 C (\<lambda>l. - mean (map (\<lambda>x. l * (x + te)) lp)) (data la)"
  define r where "r = optimizer_step1 C opt (data la) g"
  define t where "t = called [ZeroGrad LogAlpha, Backward AlphaLoss, Step LogAlpha]
                (s\<lparr>log_alpha := Some \<lparr>data = snd r, grad = Some g\<rparr>,
                   alpha_optimizer := Some (fst r)\<rparr>)"
  have fn: "alpha_loss_fn lp te = (\<lambda>l. - mean (map (\<lambda>x. l * (x + te)) lp))"
    by (simp add: alpha_loss_fn_def fun_eq_iff)
  have E: "entropy_update C s lp =
         Inr (- mean (map (\<lambda>x. data la * (x + te)) lp), exp (snd r), t)"
    using entropy_update_auto[OF assms(2-5), of C lp]
    by (simp add: Let_def fn g_def r_def t_def)
  from assms(1) obtain entries u where
    T: "train_steps C s b eps eps' = Inr (entries, u)"
    and 1: "train_from_torch C s b eps eps' =
       Inr ((save_statistics entries u)\<lparr>n_train_steps_total := n_train_steps_total u + 1\<rparr>)"
    by (rule train_from_torch_ready)
  from assms(1) obtain po o1 o2 where
    O: "policy_optimizer s = Some po" "qf1_optimizer s = Some o1" "qf2_optimizer s = Some o2"
    by (rule ready_optimizers)
  note P = train_steps_params[OF T E[unfolded lp_def] O]
  let ?s' = "(save_statistics entries u)\<lparr>n_train_steps_total := n_train_steps_total u + 1\<rparr>"
  have la: "log_alpha ?s' =
            Some \<lparr>data = snd r,
                  grad = Some (g + autograd1 C
                                     (\<lambda>x. policy_loss_fn C (observations b) eps (exp x)
                                            (data (policy s)) (data (qf1 s)) (data (qf2 s)))
                                     (snd r))\<rparr>"
    using P(4) assms(2) by (simp add: t_def accumulate1_def)
  have ao: "alpha_optimizer ?s' = Some (fst r)"
    using P(5) by (simp add: t_def)
  have c: "count_list (drop (length (calls s)) (calls ?s')) (Step LogAlpha) = 1"
    using train_steps_calls[OF T] assms(2) by simp
  have m: "map_of (rev entries) ''Alpha'' = Some (Num (exp (snd r)))"
    "map_of (rev entries) ''Alpha Loss'' =
            Some (Num (- mean (map (\<lambda>x. data la * (x + te)) lp)))"
    unfolding P(6) map_of_final_entries using assms(2) by (simp_all add: lp_def)
  have "entropy_update C s lp =
         Inr (- mean (map (\<lambda>x. data la * (x + te)) lp), exp (snd r), t) \<and>
       0 < exp (snd r) \<and>
       (\<exists>entries u s'.
          train_steps C s b eps eps' = Inr (entries, u) \<and>
          train_from_torch C s b eps eps' = Inr s' \<and>
          log_alpha s' =
            Some \<lparr>data = snd r,
                  grad = Some (g + autograd1 C
                                     (\<lambda>x. policy_loss_fn C (observations b) eps (exp x)
                                            (data (policy s)) (data (qf1 s)) (data (qf2 s)))
                                     (snd r))\<rparr> \<and>
          alpha_optimizer s' = Some (fst r) \<and>
          count_list (drop (length (calls s)) (calls s')) (Step LogAlpha) = 1 \<and>
          map_of (rev entries) ''Alpha'' = Some (Num (exp (snd r))) \<and>
          map_of (rev entries) ''Alpha Loss'' =
            Some (Num (- mean (map (\<lambda>x. data la * (x + te)) lp))))"
    apply (intro conjI)
      apply (rule E)
     apply (rule exp_gt_zero)
    apply (rule exI[of _ entries], rule exI[of _ u], rule exI[of _ ?s'])
    using T 1 la ao c m apply blast
    done
  then show ?thesis
    unfolding Let_def t_def r_def g_def lp_def .
qed

theorem entropy_coefficient_stepped_once_witness:
  "ready example_auto_trainer \<and> use_automatic_entropy_tuning example_auto_trainer \<and>
   log_alpha example_auto_trainer = Some \<lparr>data = 0, grad = None\<rparr> \<and>
   target_entropy example_auto_trainer = Some (- 1) \<and>
   alpha_optimizer example_auto_trainer = Some (1, 0) \<and>
   (\<exists>entries u s'.
      train_steps example_caps example_auto_trainer example_batch [0] [0] = Inr (entries, u) \<and>
      train_from_torch example_caps example_auto_trainer example_batch [0] [0] = Inr s' \<and>
      alpha_optimizer s' = Some (1, 1) \<and>
      map_of (rev entries) ''Alpha'' = Some (Num 1) \<and>
      map_of (rev entries) ''Alpha Loss'' = Some (Num 0))"
proof -
  have h: "use_automatic_entropy_tuning example_auto_trainer"
    by (simp add: example_auto_trainer_fields)
  from entropy_coefficient_stepped_once [OF ready_example_auto_trainer h
         example_auto_trainer_fields(11,10,12), of example_caps example_batch "[0]" "[0]"]
  obtain entries u s' where
    "train_steps example_caps example_auto_trainer example_batch [0] [0] = Inr (entries, u)"
    "train_from_torch example_caps example_auto_trainer example_batch [0] [0] = Inr s'"
    "alpha_optimizer s' = Some (1, 1)"
    "map_of (rev entries) ''Alpha'' = Some (Num 1)"
    "map_of (rev entries) ''Alpha Loss'' = Some (Num 0)"
    unfolding example_log_pi
    by (auto simp: example_caps_fields mean_def Let_def)
  then show ?thesis
    using ready_example_auto_trainer
    by (auto simp: example_auto_trainer_fields)
qed

text \<open>
  C4. On a trainer on which training calls raise nothing, a training call tests the counter
  it had before the call: when the counter is a multiple of \<^verbatim>\<open>target_update_period\<close>, each
  entry of the parameters of \<^verbatim>\<open>target_qf1\<close> and \<^verbatim>\<open>target_qf2\<close> becomes
  tau times the entry of the critic after its step plus (1 - tau) times the old entry, so
  with tau equal to one and parameters of the same shape the targets are the critics;
  otherwise both target networks are left as they were. The counter grows by one.
\<close>

theorem target_networks_synchronised:
  assumes "ready s"
  shows "\<exists>s'. train_from_torch C s b eps eps' = Inr s' \<and>
     n_train_steps_total s' = n_train_steps_total s + 1 \<and>
     (if n_train_steps_total s mod target_update_period s = 0
      then target_qf1 s' =
             (target_qf1 s)\<lparr>data := ema (soft_target_tau s) (data (qf1 s')) (data (target_qf1 s))\<rparr> \<and>
           target_qf2 s' =
             (target_qf2 s)\<lparr>data := ema (soft_target_tau s) (data (qf2 s')) (data (target_qf2 s))\<rparr> \<and>
           (\<forall>i. i < length (data (target_qf1 s)) \<and> i < length (data (qf1 s')) \<longrightarrow>
              data (target_qf1 s') ! i =
                soft_target_tau s * data (qf1 s') ! i
                + (1 - soft_target_tau s) * data (target_qf1 s) ! i) \<and>
           (\<forall>i. i < length (data (target_qf2 s)) \<and> i < length (data (qf2 s')) \<longrightarrow>
              data (target_qf2 s') ! i =
                soft_target_tau s * data (qf2 s') ! i
                + (1 - soft_target_tau s) * data (target_qf2 s) ! i) \<and>
           (soft_target_tau s = 1 \<and> length (data (qf1 s')) = length (data (target_qf1 s))
              \<longrightarrow> data (target_qf1 s') = data (qf1 s')) \<and>
           (soft_target_tau s = 1 \<and> length (data (qf2 s')) = length (data (target_qf2 s))
              \<longrightarrow> data (target_qf2 s') = data (qf2 s'))
      else target_qf1 s' = target_qf1 s \<and> target_qf2 s' = target_qf2 s)"
proof -
  from assms obtain s' where 1: "train_from_torch C s b eps eps' = Inr s'"
    and n: "n_train_steps_total s' = n_train_steps_total s + 1"
    and t1: "target_qf1 s' =
       (if n_train_steps_total s mod target_update_period s = 0
        then soft_update_from_to (qf1 s') (target_qf1 s) (soft_target_tau s) else target_qf1 s)"
    and t2: "target_qf2 s' =
       (if n_train_steps_total s mod target_update_period s = 0
        then soft_update_from_to (qf2 s') (target_qf2 s) (soft_target_tau s) else target_qf2 s)"
    by (rule train_from_torch_targets)
  show ?thesis
  proof (intro exI conjI)
    show "train_from_torch C s b eps eps' = Inr s'" by (rule 1)
    show "n_train_steps_total s' = n_train_steps_total s + 1" by (rule n)
    show "if n_train_steps_total s mod target_update_period s = 0
      then target_qf1 s' =
             (target_qf1 s)\<lparr>data := ema (soft_target_tau s) (data (qf1 s')) (data (target_qf1 s))\<rparr> \<and>
           target_qf2 s' =
             (target_qf2 s)\<lparr>data := ema (soft_target_tau s) (data (qf2 s')) (data (target_qf2 s))\<rparr> \<and>
           (\<forall>i. i < length (data (target_qf1 s)) \<and> i < length (data (qf1 s')) \<longrightarrow>
              data (target_qf1 s') ! i =
                soft_target_tau s * data (qf1 s') ! i
                + (1 - soft_target_tau s) * data (target_qf1 s) ! i) \<and>
           (\<forall>i. i < length (data (target_qf2 s)) \<and> i < length (data (qf2 s')) \<longrightarrow>
              data (target_qf2 s') ! i =
                soft_target_tau s * data (qf2 s') ! i
                + (1 - soft_target_tau s) * data (target_qf2 s) ! i) \<and>
           (soft_target_tau s = 1 \<and> length (data (qf1 s')) = length (data (target_qf1 s))
              \<longrightarrow> data (target_qf1 s') = data (qf1 s')) \<and>
           (soft_target_tau s = 1 \<and> length (data (qf2 s')) = length (data (target_qf2 s))
              \<longrightarrow> data (target_qf2 s') = data (qf2 s'))
      else target_qf1 s' = target_qf1 s \<and> target_qf2 s' = target_qf2 s"
      using t1 t2 by (simp add: soft_update_from_to_def ema_nth ema_one)
  qed
qed

theorem target_networks_synchronised_witness:
  "ready example_trainer \<and>
   (\<exists>s'. train_from_torch example_caps example_trainer example_batch [0] [0] = Inr s' \<and>
      n_train_steps_total s' = 1 \<and>
      target_qf1 s' = \<lparr>data = ema (1 / 2) (data (qf1 s')) [1], grad = None\<rparr>)"
proof -
  have h: "n_train_steps_total example_trainer = 0" "target_update_period example_trainer = 1"
    "soft_target_tau example_trainer = 1 / 2"
    "target_qf1 example_trainer = \<lparr>data = [1], grad = None\<rparr>"
    by (simp_all add: example_trainer_def sac_init_def example_args_def)
  show ?thesis
    using target_networks_synchronised [OF ready_example_trainer, of example_caps example_batch
          "[0]" "[0]"] ready_example_trainer
    by (auto simp: h)
qed









text \<open>
  C8. With automatic entropy tuning disabled, the entropy block returns the constant
  \<^verbatim>\<open>alpha\<close> and changes nothing; a training call leaves \<^verbatim>\<open>alpha\<close>, \<^verbatim>\<open>log_alpha\<close> and the
  optimizer of the coefficient as they were, makes no backward pass of the coefficient's loss
  and no step of its optimizer, and, when the statistics are due, records not-a-number under
  \<^verbatim>\<open>Alpha Loss\<close> and the constant under \<^verbatim>\<open>Alpha\<close>.
\<close>

theorem fixed_alpha_reports_nan:
  assumes "\<not> use_automatic_entropy_tuning s" and "ready s"
  shows "entropy_update C s (log_pi_at C s b eps) = Inr (0, alpha s, s) \<and>
    (\<exists>s'. train_from_torch C s b eps eps' = Inr s' \<and>
       alpha s' = alpha s \<and> log_alpha s' = log_alpha s \<and>
       alpha_optimizer s' = alpha_optimizer s \<and>
       Step LogAlpha \<notin> set (drop (length (calls s)) (calls s')) \<and>
       Backward AlphaLoss \<notin> set (drop (length (calls s)) (calls s')) \<and>
       (need_to_update_eval_statistics s \<longrightarrow>
          map_of (get_diagnostics s') ''Alpha Loss'' = Some NaN \<and>
          map_of (get_diagnostics s') ''Alpha'' = Some (Num (alpha s))))"
proof
  show E: "entropy_update C s (log_pi_at C s b eps) = Inr (0, alpha s, s)"
    using assms(1) by (rule entropy_update_fixed)
  from assms(2) obtain entries t where
    T: "train_steps C s b eps eps' = Inr (entries, t)"
    and 1: "train_from_torch C s b eps eps' =
       Inr ((save_statistics entries t)\<lparr>n_train_steps_total := n_train_steps_total t + 1\<rparr>)"
    by (rule train_from_torch_ready)
  from assms(2) obtain po o1 o2 where
    O: "policy_optimizer s = Some po" "qf1_optimizer s = Some o1" "qf2_optimizer s = Some o2"
    by (rule ready_optimizers)
  note P = train_steps_params[OF T E O]
  note F = train_steps_frame[OF T]
  let ?s' = "(save_statistics entries t)\<lparr>n_train_steps_total := n_train_steps_total t + 1\<rparr>"
  have a: "alpha ?s' = alpha s" "log_alpha ?s' = log_alpha s"
    "alpha_optimizer ?s' = alpha_optimizer s"
    using P(4,5) F assms(1) by simp_all
  have c: "drop (length (calls s)) (calls ?s') =
      [Forward Policy AtObs, Forward QF1 AtObsNewActions, Forward QF2 AtObsNewActions,
         Forward QF1 AtObsActions, Forward QF2 AtObsActions,
         Forward Policy AtNextObs,
         Forward TargetQF1 AtNextObsNewActions, Forward TargetQF2 AtNextObsNewActions,
         Criterion QF1, Criterion QF2,
         ZeroGrad Policy, Backward PolicyLoss, ClipGradNorm Policy, Step Policy,
         ZeroGrad QF1, Backward QF1Loss, ClipGradNorm QF1, Step QF1,
         ZeroGrad QF2, Backward QF2Loss, ClipGradNorm QF2, Step QF2]
      @ (if n_train_steps_total s mod target_update_period s = 0
         then [SoftUpdate QF1 TargetQF1, SoftUpdate QF2 TargetQF2] else [])"
    using train_steps_calls[OF T] assms(1) by simp
  have d: "map_of (get_diagnostics ?s') ''Alpha Loss'' = Some NaN \<and>
          map_of (get_diagnostics ?s') ''Alpha'' = Some (Num (alpha s))"
    if "need_to_update_eval_statistics s"
    using that F assms(1)
    by (simp add: get_diagnostics_def map_of_dict_update map_add_def
          P(6) map_of_final_entries)
  show "\<exists>s'. train_from_torch C s b eps eps' = Inr s' \<and>
       alpha s' = alpha s \<and> log_alpha s' = log_alpha s \<and>
       alpha_optimizer s' = alpha_optimizer s \<and>
       Step LogAlpha \<notin> set (drop (length (calls s)) (calls s')) \<and>
       Backward AlphaLoss \<notin> set (drop (length (calls s)) (calls s')) \<and>
       (need_to_update_eval_statistics s \<longrightarrow>
          map_of (get_diagnostics s') ''Alpha Loss'' = Some NaN \<and>
          map_of (get_diagnostics s') ''Alpha'' = Some (Num (alpha s)))"
    apply (rule exI[of _ ?s'])
    using 1 a c d by simp
qed

theorem fixed_alpha_reports_nan_witness:
  "\<not> use_automatic_entropy_tuning example_trainer \<and> ready example_trainer \<and>
   need_to_update_eval_statistics example_trainer \<and>
   (\<exists>s'. train_from_torch example_caps example_trainer example_batch [0] [0] = Inr s' \<and>
      alpha s' = 1 / 5 \<and> log_alpha s' = None \<and>
      map_of (get_diagnostics s') ''Alpha Loss'' = Some NaN \<and>
      map_of (get_diagnostics s') ''Alpha'' = Some (Num (1 / 5)))"
proof -
  have h: "\<not> use_automatic_entropy_tuning example_trainer"
    "need_to_update_eval_statistics example_trainer"
    "alpha example_trainer = 1 / 5" "log_alpha example_trainer = None"
    by (simp_all add: example_trainer_def sac_init_def example_args_def)
  show ?thesis
    using fixed_alpha_reports_nan [OF h(1) ready_example_trainer, of example_caps example_batch
            "[0]" "[0]"] h ready_example_trainer
    by auto
qed

text \<open>
  C9. When an optimizer is passed to the constructor for the policy, for \<^verbatim>\<open>qf1\<close> or for
  \<^verbatim>\<open>qf2\<close>, the constructor does not keep it and does not create one: the attribute is
  missing. The first training call and \<^verbatim>\<open>get_snapshot\<close> then fail with an attribute
  error that names the first missing optimizer.
\<close>

theorem supplied_optimizer_discarded:
  assumes "arg_policy_optimizer a \<noteq> None \<or> arg_qf1_optimizer a \<noteq> None
           \<or> arg_qf2_optimizer a \<noteq> None"
  shows "(arg_policy_optimizer a \<noteq> None \<longrightarrow> policy_optimizer (sac_init C a) = None) \<and>
         (arg_qf1_optimizer a \<noteq> None \<longrightarrow> qf1_optimizer (sac_init C a) = None) \<and>
         (arg_qf2_optimizer a \<noteq> None \<longrightarrow> qf2_optimizer (sac_init C a) = None) \<and>
         train_from_torch C (sac_init C a) b eps eps' =
           Inl (AttributeError
                 (if arg_policy_optimizer a \<noteq> None then ''policy_optimizer''
                  else if arg_qf1_optimizer a \<noteq> None then ''qf1_optimizer''
                  else ''qf2_optimizer'')) \<and>
         get_snapshot (sac_init C a) =
           Inl (AttributeError
                 (if arg_policy_optimizer a \<noteq> None then ''policy_optimizer''
                  else if arg_qf1_optimizer a \<noteq> None then ''qf1_optimizer''
                  else ''qf2_optimizer''))"
proof -
  note m = train_steps_missing_optimizer[OF sac_init_entropy_attributes, of C a C b eps eps']
  have "train_steps C (sac_init C a) b eps eps' =
           Inl (AttributeError
                 (if arg_policy_optimizer a \<noteq> None then ''policy_optimizer''
                  else if arg_qf1_optimizer a \<noteq> None then ''qf1_optimizer''
                  else ''qf2_optimizer''))"
    using assms m by (auto simp: sac_init_optimizers)
  moreover have "get_snapshot (sac_init C a) =
           Inl (AttributeError
                 (if arg_policy_optimizer a \<noteq> None then ''policy_optimizer''
                  else if arg_qf1_optimizer a \<noteq> None then ''qf1_optimizer''
                  else ''qf2_optimizer''))"
    using assms sac_init_optimizers[of C a]
    by (auto simp: get_snapshot_def split: option.splits)
  ultimately show ?thesis
    by (simp add: train_from_torch_Inl sac_init_optimizers)
qed

theorem supplied_optimizer_discarded_witness:
  "arg_policy_optimizer (example_args\<lparr>arg_qf1_optimizer := Some (1, 0)\<rparr>) = None \<and>
   arg_qf1_optimizer (example_args\<lparr>arg_qf1_optimizer := Some (1, 0)\<rparr>) = Some (1, 0) \<and>
   qf1_optimizer (sac_init example_caps (example_args\<lparr>arg_qf1_optimizer := Some (1, 0)\<rparr>)) = None \<and>
   train_from_torch example_caps
     (sac_init example_caps (example_args\<lparr>arg_qf1_optimizer := Some (1, 0)\<rparr>))
     example_batch [0] [0] = Inl (AttributeError ''qf1_optimizer'') \<and>
   get_snapshot (sac_init example_caps (example_args\<lparr>arg_qf1_optimizer := Some (1, 0)\<rparr>))
     = Inl (AttributeError ''qf1_optimizer'')"
proof -
  have h: "arg_policy_optimizer (example_args\<lparr>arg_qf1_optimizer := Some (1, 0)\<rparr>) \<noteq> None
      \<or> arg_qf1_optimizer (example_args\<lparr>arg_qf1_optimizer := Some (1, 0)\<rparr>) \<noteq> None
      \<or> arg_qf2_optimizer (example_args\<lparr>arg_qf1_optimizer := Some (1, 0)\<rparr>) \<noteq> None"
    by simp
  show ?thesis
    using supplied_optimizer_discarded [OF h, of example_caps example_batch "[0]" "[0]"]
    by (simp add: example_args_def)
qed



end
